theory Spec2Isabelle
  imports Main
begin

section \<open>Python values and strings\<close>

text \<open>
  The records handled by \<^verbatim>\<open>RestrictedPaperSearcher\<close> are decoded JSON: the raw works
  of the API and the dictionaries built by \<^verbatim>\<open>_parse_paper\<close>. A dictionary is an
  association list in insertion order (keys are distinct in a decoded object), a string is
  a list of characters. A character is a code point below 256:
  \<^verbatim>\<open>str.isalnum\<close> and the whitespace of \<^verbatim>\<open>str.split\<close> are Python's on that
  range, and \<^verbatim>\<open>str.lower\<close> is modelled on the letters A to Z, which is all that a
  test against the keywords, all of them ASCII, depends on. JSON numbers are the integers.
\<close>

datatype json =
    JNull
  | JBool bool
  | JNum int
  | JStr string
  | JArr "json list"
  | JObj "(string \<times> json) list"

type_synonym pydict = "(string \<times> json) list"

datatype error = AttributeError | TypeError | ValueError | IndexError | KeyError

text \<open>Truth value of a Python object, as used by \<^verbatim>\<open>or\<close>, \<^verbatim>\<open>if\<close> and \<^verbatim>\<open>not\<close>.\<close>

fun truthy :: "json \<Rightarrow> bool" where
  "truthy JNull = False"
| "truthy (JBool b) = b"
| "truthy (JNum n) = (n \<noteq> 0)"
| "truthy (JStr s) = (s \<noteq> [])"
| "truthy (JArr xs) = (xs \<noteq> [])"
| "truthy (JObj kvs) = (kvs \<noteq> [])"

text \<open>\<^verbatim>\<open>a or b\<close>\<close>

definition py_or :: "json \<Rightarrow> json \<Rightarrow> json" where
  "py_or a b = (if truthy a then a else b)"

text \<open>\<^verbatim>\<open>d.get(k, default)\<close> on a dictionary; \<^verbatim>\<open>d.get(k)\<close> has the default \<^verbatim>\<open>None\<close>.\<close>

definition dict_get :: "pydict \<Rightarrow> string \<Rightarrow> json \<Rightarrow> json" where
  "dict_get d k dflt = (case map_of d k of None \<Rightarrow> dflt | Some v \<Rightarrow> v)"

text \<open>\<^verbatim>\<open>d[k] = v\<close>: an existing key keeps its place, a new key goes last.\<close>

fun dict_set :: "('k \<times> 'v) list \<Rightarrow> 'k \<Rightarrow> 'v \<Rightarrow> ('k \<times> 'v) list" where
  "dict_set [] k v = [(k, v)]"
| "dict_set ((k', v') # d) k v = (if k' = k then (k, v) # d else (k', v') # dict_set d k v)"

text \<open>\<^verbatim>\<open>c.lower()\<close> on an ASCII character, and \<^verbatim>\<open>s.lower()\<close>.\<close>

definition lower_char :: "char \<Rightarrow> char" where
  "lower_char c =
     (let n = (of_char c :: nat) in if 65 \<le> n \<and> n \<le> 90 then char_of (n + 32) else c)"

definition lower :: "string \<Rightarrow> string" where
  "lower s = map lower_char s"

text \<open>\<^verbatim>\<open>v.lower()\<close> on a value: only a string has the method.\<close>

fun value_lower :: "json \<Rightarrow> error + string" where
  "value_lower (JStr s) = Inr (lower s)"
| "value_lower _ = Inl AttributeError"

text \<open>\<^verbatim>\<open>s.startswith(p)\<close> and the substring test \<^verbatim>\<open>k in s\<close>.\<close>

fun starts_with :: "string \<Rightarrow> string \<Rightarrow> bool" where
  "starts_with s [] = True"
| "starts_with [] (p # ps) = False"
| "starts_with (c # cs) (p # ps) = (if c = p then starts_with cs ps else False)"

fun py_in :: "string \<Rightarrow> string \<Rightarrow> bool" where
  "py_in k [] = (k = [])"
| "py_in k (c # cs) = (if starts_with (c # cs) k then True else py_in k cs)"

text \<open>\<^verbatim>\<open>sep.join(xs)\<close>\<close>

fun py_join :: "string \<Rightarrow> string list \<Rightarrow> string" where
  "py_join sep [] = []"
| "py_join sep [x] = x"
| "py_join sep (x # y # ys) = x @ sep @ py_join sep (y # ys)"

section \<open>The keyword taxonomy\<close>

definition NDT_METHODS_CORE :: "string list" where
  "NDT_METHODS_CORE = [
    ''ultrasonic pulse velocity'', ''upv'',
    ''impact echo'', ''impact-echo'',
    ''phased array ultrasonic'', ''paut'', ''tofd'',
    ''ground penetrating radar'', ''gpr'',
    ''eddy current testing'',
    ''magnetic flux leakage'',
    ''half-cell potential'', ''half cell potential'',
    ''resistivity measurement'', ''wenner probe'',
    ''sonreb'', ''rebound hammer'', ''schmidt hammer'',
    ''pull-out test'', ''pullout test'', ''capo test'', ''lok test'',
    ''flat-jack'', ''flatjack'',
    ''resistance drilling'', ''resistograph'',
    ''magnetic particle testing'', ''dye penetrant'',
    ''visual grading'',
    ''infrared thermography'',
    ''non-destructive testing'', ''nondestructive testing'',
    ''non-destructive evaluation'', ''nondestructive evaluation'']"

definition STRUCTURAL_MATERIALS :: "string list" where
  "STRUCTURAL_MATERIALS = [
    ''reinforced concrete'', ''rc structure'', ''rc beam'', ''rc column'',
    ''concrete bridge'', ''concrete building'', ''concrete structure'',
    ''prestressed concrete'', ''post-tensioned concrete'',
    ''structural steel'', ''steel structure'', ''steel bridge'',
    ''steel beam'', ''steel column'', ''steel connection'',
    ''timber structure'', ''timber beam'', ''timber building'',
    ''glulam'', ''laminated timber'', ''wood structure'',
    ''masonry structure'', ''masonry wall'', ''masonry building'',
    ''brick masonry'', ''stone masonry'', ''historic masonry'',
    ''heritage building'', ''unreinforced masonry'']"

definition TASK_GEOMETRY :: "string list" where
  "TASK_GEOMETRY = [
    ''geometry verification'', ''geometric verification'',
    ''dimension measurement'', ''cross-section measurement'',
    ''reinforcement layout'', ''reinforcement mapping'', ''rebar detection'',
    ''cover depth'', ''concrete cover'', ''section geometry'',
    ''connection detail'', ''structural geometry'',
    ''thickness measurement'', ''section loss measurement'']"

definition TASK_STRENGTH :: "string list" where
  "TASK_STRENGTH = [
    ''strength estimation'', ''strength assessment'', ''strength evaluation'',
    ''compressive strength'', ''tensile strength'', ''flexural strength'',
    ''characteristic strength'', ''characteristic value'',
    ''design value'', ''material strength'', ''load capacity'',
    ''residual strength'', ''in-situ strength'',
    ''strength prediction'', ''strength determination'']"

definition TASK_DETERIORATION :: "string list" where
  "TASK_DETERIORATION = [
    ''deterioration assessment'', ''deterioration evaluation'',
    ''corrosion detection'', ''corrosion assessment'', ''corrosion rate'',
    ''decay assessment'', ''decay detection'', ''wood decay'',
    ''chemical attack'', ''sulfate attack'', ''alkali-silica reaction'',
    ''residual capacity'', ''degradation assessment'',
    ''carbonation depth'', ''chloride penetration'', ''chloride ingress'',
    ''service life'', ''durability assessment'']"

definition TASK_DEFECTS :: "string list" where
  "TASK_DEFECTS = [
    ''defect identification'', ''defect detection'', ''flaw detection'',
    ''crack detection'', ''crack mapping'', ''crack characterization'',
    ''void detection'', ''void identification'', ''honeycombing'',
    ''delamination detection'', ''delamination assessment'',
    ''hidden damage'', ''internal damage'', ''damage detection'',
    ''fire damage'', ''impact damage'', ''structural damage'']"

definition TASK_MOISTURE :: "string list" where
  "TASK_MOISTURE = [
    ''moisture content'', ''moisture measurement'', ''moisture assessment'',
    ''moisture condition'', ''moisture distribution'',
    ''moisture meter'', ''resistance meter'',
    ''moisture-related'', ''moisture damage'', ''water ingress'',
    ''drying'', ''wetting'', ''hygroscopic'']"

definition ALL_ASSESSMENT_TASKS :: "string list" where
  "ALL_ASSESSMENT_TASKS =
     TASK_GEOMETRY @ TASK_STRENGTH @ TASK_DETERIORATION @ TASK_DEFECTS @ TASK_MOISTURE"

definition CIRCULAR_STRICT :: "string list" where
  "CIRCULAR_STRICT = [
    ''circular construction'', ''circular economy building'',
    ''structural reuse'', ''component reuse'', ''element reuse'',
    ''building reuse'', ''material reuse'',
    ''deconstruction'', ''selective demolition'',
    ''design for disassembly'',
    ''reuse assessment'', ''reusability assessment'']"

definition EXCLUSION_STRICT :: "string list" where
  "EXCLUSION_STRICT = [
    ''cancer'', ''tumor'', ''tumour'', ''patient'', ''clinical trial'',
    ''biomedical'', ''medical imaging'', ''cell culture'', ''pharmaceutical'',
    ''surgery'', ''hospital'', ''diagnosis patient'', ''therapy'',
    ''food quality'', ''fruit quality'', ''vegetable'', ''meat quality'',
    ''agricultural'', ''crop'', ''grain'', ''fish quality'', ''poultry'',
    ''aerospace'', ''aircraft'', ''wind turbine blade'', ''wind energy'',
    ''additive manufacturing'', ''semiconductor'', ''electronics'',
    ''battery'', ''lithium'', ''nuclear reactor'', ''pipeline weld'',
    ''seismic exploration'', ''oil reservoir'', ''petroleum'',
    ''mining exploration'', ''geological'', ''rock formation'',
    ''automotive'', ''vehicle'', ''car body'', ''engine component'',
    ''pavement'', ''asphalt'', ''road surface'', ''runway'']"

section \<open>The relevance classifier\<close>

text \<open>
  Lines 174 to 176 of \<^verbatim>\<open>is_relevant\<close>: the lower-cased title and abstract, joined by
  one space. A missing or falsy entry counts as the empty string; any other value that is
  not a string has no \<^verbatim>\<open>lower\<close> method.
\<close>

definition paper_text :: "pydict \<Rightarrow> error + string" where
  "paper_text paper =
     (case value_lower (py_or (dict_get paper ''title'' JNull) (JStr [])) of
        Inl e \<Rightarrow> Inl e
      | Inr title \<Rightarrow>
          (case value_lower (py_or (dict_get paper ''abstract'' JNull) (JStr [])) of
             Inl e \<Rightarrow> Inl e
           | Inr abstract \<Rightarrow> Inr (title @ '' '' @ abstract)))"

text \<open>\<^verbatim>\<open>any(k.lower() in text for k in keywords)\<close>\<close>

definition any_in :: "string list \<Rightarrow> string \<Rightarrow> bool" where
  "any_in keywords text = list_ex (\<lambda>k. py_in (lower k) text) keywords"

text \<open>The exclusion loop: the first exclusion keyword, in list order, found in the text.\<close>

fun first_exclusion :: "string list \<Rightarrow> string \<Rightarrow> string option" where
  "first_exclusion [] text = None"
| "first_exclusion (exclude # rest) text =
     (if py_in (lower exclude) text then Some exclude else first_exclusion rest text)"

text \<open>\<^verbatim>\<open>stats.get(k, 0) + 1\<close> stored back under \<^verbatim>\<open>k\<close>.\<close>

definition stats_count :: "(string \<rightharpoonup> nat) \<Rightarrow> string \<Rightarrow> nat" where
  "stats_count stats k = (case stats k of None \<Rightarrow> 0 | Some n \<Rightarrow> n)"

definition tasks_found :: "string \<Rightarrow> string list" where
  "tasks_found text =
     (if any_in TASK_GEOMETRY text then [''geometry''] else []) @
     (if any_in TASK_STRENGTH text then [''strength''] else []) @
     (if any_in TASK_DETERIORATION text then [''deterioration''] else []) @
     (if any_in TASK_DEFECTS text then [''defects''] else []) @
     (if any_in TASK_MOISTURE text then [''moisture''] else [])"

text \<open>
  \<^verbatim>\<open>is_relevant\<close> takes the counters \<^verbatim>\<open>self.exclusion_stats\<close> and returns them
  updated, next to the pair it returns in Python.
\<close>

definition is_relevant ::
  "(string \<rightharpoonup> nat) \<Rightarrow> pydict \<Rightarrow> error + ((bool \<times> string) \<times> (string \<rightharpoonup> nat))" where
  "is_relevant exclusion_stats paper =
     (case paper_text paper of
        Inl e \<Rightarrow> Inl e
      | Inr text \<Rightarrow>
          (case first_exclusion EXCLUSION_STRICT text of
             Some exclude \<Rightarrow>
               Inr ((False, ''Excluded: '' @ exclude),
                    exclusion_stats(exclude \<mapsto> stats_count exclusion_stats exclude + 1))
           | None \<Rightarrow>
               if \<not> any_in NDT_METHODS_CORE text then
                 Inr ((False, ''No core NDT method''), exclusion_stats)
               else if \<not> any_in STRUCTURAL_MATERIALS text then
                 Inr ((False, ''No structural material''), exclusion_stats)
               else if \<not> (any_in ALL_ASSESSMENT_TASKS text \<or> any_in CIRCULAR_STRICT text) then
                 Inr ((False, ''No assessment task or circular context''), exclusion_stats)
               else
                 Inr ((True, ''Tasks: '' @
                        (if tasks_found text \<noteq> [] then py_join '', '' (tasks_found text)
                         else ''circular'')),
                      exclusion_stats)))"

section \<open>The paper parser\<close>

text \<open>\<^verbatim>\<open>v.get(k, default)\<close> on any value: only a dictionary has the method.\<close>

fun value_get :: "json \<Rightarrow> string \<Rightarrow> json \<Rightarrow> error + json" where
  "value_get (JObj d) k dflt = Inr (dict_get d k dflt)"
| "value_get _ k dflt = Inl AttributeError"

text \<open>
  The elements a \<^verbatim>\<open>for\<close> loop sees: the items of a list, the keys of a dictionary, the
  characters of a string; nothing else is iterable.
\<close>

fun py_iter :: "json \<Rightarrow> error + json list" where
  "py_iter (JArr xs) = Inr xs"
| "py_iter (JObj kvs) = Inr (map (\<lambda>kv. JStr (fst kv)) kvs)"
| "py_iter (JStr s) = Inr (map (\<lambda>c. JStr [c]) s)"
| "py_iter _ = Inl TypeError"

text \<open>The loop over \<^verbatim>\<open>authorships\<close> (lines 389 to 392), with the list built so far.\<close>

fun collect_authors :: "json list \<Rightarrow> json list \<Rightarrow> error + json list" where
  "collect_authors [] authors = Inr authors"
| "collect_authors (authorship # rest) authors =
     (case value_get authorship ''author'' (JObj []) of
        Inl e \<Rightarrow> Inl e
      | Inr author \<Rightarrow>
          (case value_get author ''display_name'' JNull of
             Inl e \<Rightarrow> Inl e
           | Inr name \<Rightarrow>
               if truthy name then collect_authors rest (authors @ [name])
               else collect_authors rest authors))"

text \<open>\<^verbatim>\<open>sep.join(vs)\<close> on values: every item has to be a string.\<close>

fun as_strings :: "json list \<Rightarrow> error + string list" where
  "as_strings [] = Inr []"
| "as_strings (JStr s # vs) =
     (case as_strings vs of Inl e \<Rightarrow> Inl e | Inr ss \<Rightarrow> Inr (s # ss))"
| "as_strings (_ # vs) = Inl TypeError"

definition join_values :: "string \<Rightarrow> json list \<Rightarrow> error + string" where
  "join_values sep vs = (case as_strings vs of Inl e \<Rightarrow> Inl e | Inr ss \<Rightarrow> Inr (py_join sep ss))"

text \<open>
  A list of positions of the inverted index, as \<^verbatim>\<open>max(indices)\<close>, the addition
  \<^verbatim>\<open>max_idx + 1\<close> and \<^verbatim>\<open>words[idx]\<close> need it: a non-empty iterable of integers
  (\<^verbatim>\<open>True\<close> and \<^verbatim>\<open>False\<close> count as 1 and 0). Anything else raises in one of the three
  places (\<^verbatim>\<open>TypeError\<close> or \<^verbatim>\<open>ValueError\<close>, which one depends on the order of the
  entries); the model reports the first ill-formed list.
\<close>

fun as_ints :: "json list \<Rightarrow> error + int list" where
  "as_ints [] = Inr []"
| "as_ints (JNum n # vs) =
     (case as_ints vs of Inl e \<Rightarrow> Inl e | Inr ns \<Rightarrow> Inr (n # ns))"
| "as_ints (JBool b # vs) =
     (case as_ints vs of Inl e \<Rightarrow> Inl e | Inr ns \<Rightarrow> Inr ((if b then 1 else 0) # ns))"
| "as_ints (_ # vs) = Inl TypeError"

definition positions :: "json \<Rightarrow> error + int list" where
  "positions indices =
     (case py_iter indices of
        Inl e \<Rightarrow> Inl e
      | Inr vs \<Rightarrow> if vs = [] then Inl ValueError else as_ints vs)"

fun index_lists :: "(string \<times> json) list \<Rightarrow> error + (string \<times> int list) list" where
  "index_lists [] = Inr []"
| "index_lists ((word, indices) # rest) =
     (case positions indices of
        Inl e \<Rightarrow> Inl e
      | Inr ps \<Rightarrow>
          (case index_lists rest of Inl e \<Rightarrow> Inl e | Inr ix \<Rightarrow> Inr ((word, ps) # ix)))"

text \<open>\<^verbatim>\<open>max\<close> of a non-empty list of integers.\<close>

definition py_max :: "int list \<Rightarrow> int" where
  "py_max xs = fold max (tl xs) (hd xs)"

text \<open>\<^verbatim>\<open>xs[i] = v\<close>: a negative index counts from the end, out of range raises.\<close>

definition list_assign :: "'a list \<Rightarrow> int \<Rightarrow> 'a \<Rightarrow> error + 'a list" where
  "list_assign xs i v =
     (let n = int (length xs); j = (if i < 0 then i + n else i)
      in if 0 \<le> j \<and> j < n then Inr (xs[nat j := v]) else Inl IndexError)"

text \<open>The two nested loops of lines 403 to 405.\<close>

fun place_word :: "string \<Rightarrow> int list \<Rightarrow> string list \<Rightarrow> error + string list" where
  "place_word word [] words = Inr words"
| "place_word word (idx # indices) words =
     (case list_assign words idx word of
        Inl e \<Rightarrow> Inl e
      | Inr words' \<Rightarrow> place_word word indices words')"

fun place_words :: "(string \<times> int list) list \<Rightarrow> string list \<Rightarrow> error + string list" where
  "place_words [] words = Inr words"
| "place_words ((word, indices) # rest) words =
     (case place_word word indices words of
        Inl e \<Rightarrow> Inl e
      | Inr words' \<Rightarrow> place_words rest words')"

text \<open>
  Lines 397 to 406, from the value of \<^verbatim>\<open>paper.get("abstract_inverted_index")\<close>: a falsy
  value gives the empty abstract, a truthy one has to be a dictionary.
\<close>

definition rebuild_abstract :: "json \<Rightarrow> error + string" where
  "rebuild_abstract inv_idx =
     (if truthy inv_idx then
        (case inv_idx of
           JObj kvs \<Rightarrow>
             (case index_lists kvs of
                Inl e \<Rightarrow> Inl e
              | Inr ix \<Rightarrow>
                  (let max_idx = py_max (map (\<lambda>wp. py_max (snd wp)) ix);
                       words = replicate (nat (max_idx + 1)) []
                   in case place_words ix words of
                        Inl e \<Rightarrow> Inl e
                      | Inr words' \<Rightarrow> Inr (py_join '' '' words')))
         | _ \<Rightarrow> Inl AttributeError)
      else Inr [])"

text \<open>\<^verbatim>\<open>s.replace(old, new)\<close>: every occurrence, left to right, without overlap.\<close>

fun replace_from :: "nat \<Rightarrow> string \<Rightarrow> string \<Rightarrow> string \<Rightarrow> string" where
  "replace_from skip old new [] = []"
| "replace_from (Suc skip) old new (c # cs) = replace_from skip old new cs"
| "replace_from 0 old new (c # cs) =
     (if starts_with (c # cs) old then new @ replace_from (length old - 1) old new cs
      else c # replace_from 0 old new cs)"

definition py_replace :: "string \<Rightarrow> string \<Rightarrow> string \<Rightarrow> string" where
  "py_replace old new s =
     (if old = [] then new @ concat (map (\<lambda>c. c # new) s) else replace_from 0 old new s)"

text \<open>The body of the \<^verbatim>\<open>try\<close> block of \<^verbatim>\<open>_parse_paper\<close>.\<close>

definition parse_paper_try :: "json \<Rightarrow> error + pydict" where
  "parse_paper_try paper =
     (case paper of
        JObj p \<Rightarrow>
          (case py_iter (dict_get p ''authorships'' (JArr [])) of
             Inl e \<Rightarrow> Inl e
           | Inr authorships \<Rightarrow>
          (case collect_authors authorships [] of
             Inl e \<Rightarrow> Inl e
           | Inr authors \<Rightarrow>
          (case value_get (py_or (dict_get p ''primary_location'' (JObj [])) (JObj []))
                  ''source'' (JObj []) of
             Inl e \<Rightarrow> Inl e
           | Inr source \<Rightarrow>
          (case rebuild_abstract (dict_get p ''abstract_inverted_index'' JNull) of
             Inl e \<Rightarrow> Inl e
           | Inr abstract \<Rightarrow>
          (case join_values ''; '' (take 5 authors) of
             Inl e \<Rightarrow> Inl e
           | Inr author_names \<Rightarrow>
          (case (if truthy (dict_get p ''doi'' JNull) then
                   (case dict_get p ''doi'' (JStr []) of
                      JStr d \<Rightarrow> Inr (JStr (py_replace ''https://doi.org/'' [] d))
                    | _ \<Rightarrow> Inl AttributeError)
                 else Inr (JStr [])) of
             Inl e \<Rightarrow> Inl e
           | Inr doi \<Rightarrow>
          (case value_get (py_or source (JObj [])) ''display_name'' (JStr []) of
             Inl e \<Rightarrow> Inl e
           | Inr journal \<Rightarrow>
          (case value_get (dict_get p ''open_access'' (JObj [])) ''is_oa'' (JBool False) of
             Inl e \<Rightarrow> Inl e
           | Inr is_oa \<Rightarrow>
               Inr [(''title'', dict_get p ''title'' (JStr [])),
                    (''authors'', JStr author_names),
                    (''year'', dict_get p ''publication_year'' JNull),
                    (''doi'', doi),
                    (''journal'', journal),
                    (''abstract'', JStr abstract),
                    (''cited_by_count'', dict_get p ''cited_by_count'' (JNum 0)),
                    (''type'', dict_get p ''type'' (JStr [])),
                    (''open_access'', is_oa),
                    (''url'', py_or (dict_get p ''doi'' JNull) (dict_get p ''id'' (JStr []))),
                    (''openalex_id'', dict_get p ''id'' (JStr []))]))))))))
      | _ \<Rightarrow> Inl AttributeError)"

text \<open>\<^verbatim>\<open>_parse_paper\<close>: any exception of the body is caught and \<^verbatim>\<open>None\<close> returned.\<close>

definition parse_paper :: "json \<Rightarrow> pydict option" where
  "parse_paper paper = (case parse_paper_try paper of Inl e \<Rightarrow> None | Inr d \<Rightarrow> Some d)"

section \<open>The search driver\<close>

text \<open>
  The accepted map \<^verbatim>\<open>all_results\<close> is a dictionary keyed by the \<^verbatim>\<open>id\<close> of the raw
  record. A key has to be hashable, and keys are compared as Python compares them:
  \<^verbatim>\<open>True\<close> and \<^verbatim>\<open>False\<close> are the keys 1 and 0.
\<close>

datatype key = KNone | KNum int | KStr string

fun hash_key :: "json \<Rightarrow> error + key" where
  "hash_key JNull = Inr KNone"
| "hash_key (JBool b) = Inr (KNum (if b then 1 else 0))"
| "hash_key (JNum n) = Inr (KNum n)"
| "hash_key (JStr s) = Inr (KStr s)"
| "hash_key _ = Inl TypeError"

text \<open>Line 342 and the hashing of line 343.\<close>

definition paper_key :: "json \<Rightarrow> error + key" where
  "paper_key paper =
     (case value_get paper ''id'' (JStr []) of
        Inl e \<Rightarrow> Inl e
      | Inr paper_id \<Rightarrow> hash_key paper_id)"

text \<open>The attributes of a \<^verbatim>\<open>RestrictedPaperSearcher\<close> that change, and \<^verbatim>\<open>__init__\<close>.\<close>

record searcher =
  email :: "string option"
  results :: "pydict list"
  excluded :: "pydict list"
  exclusion_stats :: "string \<rightharpoonup> nat"

definition init_searcher :: "string option \<Rightarrow> searcher" where
  "init_searcher e = \<lparr>email = e, results = [], excluded = [], exclusion_stats = Map.empty\<rparr>"

text \<open>\<^verbatim>\<open>v[:60]\<close>: strings and lists can be sliced.\<close>

fun py_slice60 :: "json \<Rightarrow> error + json" where
  "py_slice60 (JStr s) = Inr (JStr (take 60 s))"
| "py_slice60 (JArr xs) = Inr (JArr (take 60 xs))"
| "py_slice60 _ = Inl TypeError"

type_synonym accepted = "(key \<times> pydict) list"

text \<open>
  The body of the loop over the records of a page (lines 342 to 360). An exception that
  is raised here leaves \<^verbatim>\<open>search\<close>, which catches network errors only.
\<close>

definition process_paper :: "accepted \<times> searcher \<Rightarrow> json \<Rightarrow> error + (accepted \<times> searcher)" where
  "process_paper state paper =
     (case state of (all_results, self) \<Rightarrow>
       (case paper_key paper of
          Inl e \<Rightarrow> Inl e
        | Inr paper_id \<Rightarrow>
            if map_of all_results paper_id \<noteq> None then Inr (all_results, self)
            else
              (case parse_paper paper of
                 None \<Rightarrow> Inr (all_results, self)
               | Some paper_data \<Rightarrow>
                   if paper_data = [] then Inr (all_results, self)
                   else
                     (case is_relevant (exclusion_stats self) paper_data of
                        Inl e \<Rightarrow> Inl e
                      | Inr ((relevant, reason), stats) \<Rightarrow>
                          if relevant then
                            Inr (dict_set all_results paper_id
                                   (dict_set paper_data ''assessment_tasks'' (JStr reason)),
                                 self\<lparr>exclusion_stats := stats\<rparr>)
                          else
                            (case py_slice60 (dict_get paper_data ''title'' (JStr [])) of
                               Inl e \<Rightarrow> Inl e
                             | Inr short_title \<Rightarrow>
                                 Inr (all_results,
                                      self\<lparr>excluded := excluded self @
                                               [[(''title'', short_title), (''reason'', JStr reason)]],
                                           exclusion_stats := stats\<rparr>))))))"

fun process_results :: "accepted \<times> searcher \<Rightarrow> json list \<Rightarrow> error + (accepted \<times> searcher)" where
  "process_results state [] = Inr state"
| "process_results state (paper # rest) =
     (case process_paper state paper of
        Inl e \<Rightarrow> Inl e
      | Inr state' \<Rightarrow> process_results state' rest)"

text \<open>
  The network. A request carries the parameters of lines 319 to 326; the answer to the
  \<open>n\<close>-th request of a run is either an exception of \<^verbatim>\<open>requests\<close> (raised by the
  call, by \<^verbatim>\<open>raise_for_status\<close> or by the decoding) or the decoded body.
\<close>

record params =
  p_search :: string
  p_start_year :: int
  p_end_year :: int
  p_cursor :: json
  p_mailto :: "string option"

datatype response = RequestException | Response json

type_synonym server = "nat \<Rightarrow> params \<Rightarrow> response"

text \<open>
  The \<^verbatim>\<open>while pages < max_pages_per_term\<close> loop, by the number of pages that may still
  be fetched; \<open>n\<close> counts the requests sent so far.
\<close>

fun fetch_pages ::
  "server \<Rightarrow> nat \<Rightarrow> nat \<times> params \<times> accepted \<times> searcher \<Rightarrow> error + (nat \<times> accepted \<times> searcher)" where
  "fetch_pages srv 0 (n, ps, state) = Inr (n, state)"
| "fetch_pages srv (Suc remaining) (n, ps, state) =
     (case srv n ps of
        RequestException \<Rightarrow> Inr (Suc n, state)
      | Response data \<Rightarrow>
          (case value_get data ''results'' (JArr []) of
             Inl e \<Rightarrow> Inl e
           | Inr rs \<Rightarrow>
               if \<not> truthy rs then Inr (Suc n, state)
               else
                 (case py_iter rs of
                    Inl e \<Rightarrow> Inl e
                  | Inr papers \<Rightarrow>
                 (case process_results state papers of
                    Inl e \<Rightarrow> Inl e
                  | Inr state' \<Rightarrow>
                 (case value_get data ''meta'' (JObj []) of
                    Inl e \<Rightarrow> Inl e
                  | Inr meta \<Rightarrow>
                 (case value_get meta ''next_cursor'' JNull of
                    Inl e \<Rightarrow> Inl e
                  | Inr next_cursor \<Rightarrow>
                      if \<not> truthy next_cursor then Inr (Suc n, state')
                      else fetch_pages srv remaining
                             (Suc n, ps\<lparr>p_cursor := next_cursor\<rparr>, state')))))))"

definition search_terms :: "string list" where
  \<open>search_terms = [
    ''"reinforcement mapping" "ground penetrating radar"'',
    ''"cover depth" concrete "non-destructive"'',
    ''"rebar detection" ultrasonic'',
    ''"geometry verification" structure'',
    ''"GPR" "reinforced concrete"'',
    ''"reinforcement detection" concrete'',
    ''"section geometry" "non-destructive"'',
    ''"cover depth measurement" concrete'',
    ''"strength estimation" concrete'',
    ''"rebound hammer" concrete strength'',
    ''"compressive strength" "non-destructive" concrete'',
    ''"sonreb" concrete'',
    ''"pull-out test" concrete'',
    ''"in-situ strength" concrete'',
    ''"ultrasonic pulse velocity" strength concrete'',
    ''"characteristic value" strength concrete'',
    ''"schmidt hammer" concrete'',
    ''"corrosion detection" "reinforced concrete"'',
    ''"half-cell potential" corrosion'',
    ''"carbonation depth" concrete'',
    ''"chloride penetration" concrete'',
    ''"corrosion assessment" concrete'',
    ''"decay assessment" timber'',
    ''"resistance drilling" timber'',
    ''"degradation assessment" concrete'',
    ''"corrosion rate" reinforcement'',
    ''"service life" concrete NDT'',
    ''"durability assessment" concrete'',
    ''"crack detection" concrete'',
    ''"delamination detection" concrete'',
    ''"impact echo" concrete'',
    ''"void detection" concrete'',
    ''"defect detection" concrete'',
    ''"flaw detection" steel'',
    ''"ultrasonic testing" concrete defect'',
    ''"internal damage" concrete'',
    ''"hidden damage" structure'',
    ''"damage detection" "non-destructive"'',
    ''"moisture content" timber'',
    ''"moisture measurement" building'',
    ''"infrared thermography" moisture'',
    ''"moisture assessment" concrete'',
    ''"water ingress" building'',
    ''"moisture meter" timber'',
    ''"moisture distribution" concrete'',
    ''"non-destructive testing" "reinforced concrete"'',
    ''"non-destructive testing" "structural steel"'',
    ''"non-destructive evaluation" concrete bridge'',
    ''"ultrasonic pulse velocity" concrete structure'',
    ''"ground penetrating radar" concrete structure'',
    ''"infrared thermography" concrete building'',
    ''"masonry structure" "non-destructive"'',
    ''"timber structure" "non-destructive"'',
    ''"historic masonry" assessment'',
    ''"heritage building" "non-destructive"'',
    ''"flat-jack" masonry'',
    ''"resistograph" timber'',
    ''"structural reuse" assessment'',
    ''"circular construction" building'',
    ''"existing building" assessment NDT'',
    ''"condition assessment" existing structure'',
    ''"reuse assessment" building'',
    ''"building reuse" "non-destructive"'']\<close>

text \<open>The loop over the query terms (lines 316 to 373).\<close>

fun search_loop ::
  "server \<Rightarrow> int \<Rightarrow> int \<Rightarrow> int \<Rightarrow> string list \<Rightarrow> nat \<times> accepted \<times> searcher \<Rightarrow>
     error + (nat \<times> accepted \<times> searcher)" where
  "search_loop srv start_year end_year max_pages_per_term [] (n, state) = Inr (n, state)"
| "search_loop srv start_year end_year max_pages_per_term (t # rest) (n, state) =
     (case fetch_pages srv (nat max_pages_per_term)
             (n, \<lparr>p_search = t, p_start_year = start_year, p_end_year = end_year,
                  p_cursor = JStr ''*'',
                  p_mailto = (case email (snd state) of
                                None \<Rightarrow> None
                              | Some e \<Rightarrow> if e = [] then None else Some e)\<rparr>,
              state) of
        Inl e \<Rightarrow> Inl e
      | Inr (n', state') \<Rightarrow>
          search_loop srv start_year end_year max_pages_per_term rest (n', state'))"

text \<open>\<^verbatim>\<open>search\<close> stores the values of the accepted map, in insertion order.\<close>

definition search :: "server \<Rightarrow> searcher \<Rightarrow> int \<Rightarrow> int \<Rightarrow> int \<Rightarrow> error + searcher" where
  "search srv self start_year end_year max_pages_per_term =
     (case search_loop srv start_year end_year max_pages_per_term search_terms (0, [], self) of
        Inl e \<Rightarrow> Inl e
      | Inr (n, all_results, self') \<Rightarrow> Inr (self'\<lparr>results := map snd all_results\<rparr>))"

text \<open>The totals that \<^verbatim>\<open>generate_prisma_stats\<close> reports (lines 492 to 494).\<close>

definition records_identified :: "searcher \<Rightarrow> nat" where
  "records_identified self = length (results self) + length (excluded self)"

definition records_after_filtering :: "searcher \<Rightarrow> nat" where
  "records_after_filtering self = length (results self)"

definition excluded_count :: "searcher \<Rightarrow> nat" where
  "excluded_count self = length (excluded self)"




section \<open>The BibTeX export\<close>

text \<open>
  \<^verbatim>\<open>c.isspace()\<close> on a code point below 256: the ASCII whitespace and separators,
  U+0085 and the no-break space U+00A0.
\<close>

definition py_isspace :: "char \<Rightarrow> bool" where
  "py_isspace c =
     (let n = (of_char c :: nat)
      in (9 \<le> n \<and> n \<le> 13) \<or> (28 \<le> n \<and> n \<le> 32) \<or> n = 133 \<or> n = 160)"

text \<open>
  \<^verbatim>\<open>c.isalnum()\<close> on a code point below 256: the ASCII digits and letters, the
  ordinal indicators U+00AA and U+00BA, the micro sign U+00B5, the superscripts U+00B2,
  U+00B3 and U+00B9, the fractions U+00BC to U+00BE, and the letters U+00C0 to U+00FF
  without the signs U+00D7 and U+00F7.
\<close>

definition py_isalnum :: "char \<Rightarrow> bool" where
  "py_isalnum c =
     (let n = (of_char c :: nat)
      in (48 \<le> n \<and> n \<le> 57) \<or> (65 \<le> n \<and> n \<le> 90) \<or> (97 \<le> n \<and> n \<le> 122) \<or>
         n = 170 \<or> n = 178 \<or> n = 179 \<or> n = 181 \<or> n = 185 \<or> n = 186 \<or>
         (188 \<le> n \<and> n \<le> 190) \<or> (192 \<le> n \<and> n \<le> 214) \<or>
         (216 \<le> n \<and> n \<le> 246) \<or> (248 \<le> n \<and> n \<le> 255))"

text \<open>\<^verbatim>\<open>s.split()\<close>: the maximal runs of characters that are not whitespace.\<close>

fun split_ws :: "string \<Rightarrow> string \<Rightarrow> string list" where
  "split_ws cur [] = (if cur = [] then [] else [cur])"
| "split_ws cur (c # cs) =
     (if py_isspace c then (if cur = [] then split_ws [] cs else cur # split_ws [] cs)
      else split_ws (cur @ [c]) cs)"

definition py_split :: "string \<Rightarrow> string list" where
  "py_split s = split_ws [] s"

text \<open>\<^verbatim>\<open>s.split(sep)[0]\<close> for a separator of one character.\<close>

definition first_field :: "char \<Rightarrow> string \<Rightarrow> string" where
  "first_field sep s = takeWhile (\<lambda>c. c \<noteq> sep) s"

text \<open>The decimal numeral of an integer, as \<^verbatim>\<open>str\<close> and the f-strings print it.\<close>

fun digits :: "nat \<Rightarrow> string" where
  "digits n =
     (if n < 10 then [char_of (48 + n)] else digits (n div 10) @ [char_of (48 + n mod 10)])"

definition str_int :: "int \<Rightarrow> string" where
  "str_int i = (if i < 0 then CHR ''-'' # digits (nat (- i)) else digits (nat i))"

text \<open>
  \<^verbatim>\<open>str(v)\<close>, as an f-string formats a value. The text of a list or a dictionary is
  Python's \<^verbatim>\<open>repr\<close>, which is not part of this program: it is the parameter
  \<open>repr\<close>.
\<close>

fun py_str :: "(json \<Rightarrow> string) \<Rightarrow> json \<Rightarrow> string" where
  "py_str repr JNull = ''None''"
| "py_str repr (JBool b) = (if b then ''True'' else ''False'')"
| "py_str repr (JNum n) = str_int n"
| "py_str repr (JStr s) = s"
| "py_str repr v = repr v"

text \<open>\<^verbatim>\<open>d[k]\<close>\<close>

definition dict_item :: "pydict \<Rightarrow> string \<Rightarrow> error + json" where
  "dict_item d k = (case map_of d k of None \<Rightarrow> Inl KeyError | Some v \<Rightarrow> Inr v)"

text \<open>Line 438: the surname of the first author.\<close>

definition first_author_of :: "json \<Rightarrow> error + string" where
  "first_author_of authors =
     (if truthy authors then
        (case authors of
           JStr s \<Rightarrow>
             (case py_split (first_field CHR '';'' s) of
                [] \<Rightarrow> Inl IndexError
              | t # ts \<Rightarrow> Inr (last (t # ts)))
         | _ \<Rightarrow> Inl AttributeError)
      else Inr ''Unknown'')"

text \<open>Lines 439 and 440: the citation key.\<close>

definition cite_key_of :: "(json \<Rightarrow> string) \<Rightarrow> string \<Rightarrow> json \<Rightarrow> nat \<Rightarrow> string" where
  "cite_key_of repr first_author year i =
     filter (\<lambda>c. py_isalnum c \<or> c = CHR ''_'')
       (first_author @ py_str repr year @ ''_'' @ digits i)"

text \<open>Line 441: the title with its braces escaped; only a string can be escaped.\<close>

definition escape_title :: "json \<Rightarrow> error + string" where
  "escape_title title =
     (case title of
        JStr t \<Rightarrow>
          Inr (py_replace ''}'' [CHR 0x5C, CHR ''}''] (py_replace ''{'' [CHR 0x5C, CHR ''{''] t))
      | _ \<Rightarrow> Inl AttributeError)"

text \<open>The body of the loop of \<^verbatim>\<open>export_to_bibtex\<close> for the paper at index \<open>i\<close>.\<close>

definition bibtex_entry :: "(json \<Rightarrow> string) \<Rightarrow> nat \<Rightarrow> pydict \<Rightarrow> error + string" where
  "bibtex_entry repr i paper =
     (case dict_item paper ''authors'' of
        Inl e \<Rightarrow> Inl e
      | Inr authors \<Rightarrow>
     (case first_author_of authors of
        Inl e \<Rightarrow> Inl e
      | Inr first_author \<Rightarrow>
     (case dict_item paper ''year'' of
        Inl e \<Rightarrow> Inl e
      | Inr year \<Rightarrow>
     (case dict_item paper ''title'' of
        Inl e \<Rightarrow> Inl e
      | Inr title \<Rightarrow>
     (case escape_title title of
        Inl e \<Rightarrow> Inl e
      | Inr escaped \<Rightarrow>
     (case dict_item paper ''journal'' of
        Inl e \<Rightarrow> Inl e
      | Inr journal \<Rightarrow>
     (case dict_item paper ''doi'' of
        Inl e \<Rightarrow> Inl e
      | Inr doi \<Rightarrow>
          Inr (''@article{'' @ cite_key_of repr first_author year i @ '','' @ [CHR 0x0A] @
               ''  title = {'' @ escaped @ ''},'' @ [CHR 0x0A] @
               ''  author = {'' @ py_str repr authors @ ''},'' @ [CHR 0x0A] @
               ''  year = {'' @ py_str repr year @ ''},'' @ [CHR 0x0A] @
               ''  journal = {'' @ py_str repr journal @ ''},'' @ [CHR 0x0A] @
               ''  doi = {'' @ py_str repr doi @ ''},'' @ [CHR 0x0A] @
               ''}''))))))))"

fun bibtex_entries :: "(json \<Rightarrow> string) \<Rightarrow> nat \<Rightarrow> pydict list \<Rightarrow> error + string list" where
  "bibtex_entries repr i [] = Inr []"
| "bibtex_entries repr i (paper # rest) =
     (case bibtex_entry repr i paper of
        Inl e \<Rightarrow> Inl e
      | Inr entry \<Rightarrow>
          (case bibtex_entries repr (Suc i) rest of
             Inl e \<Rightarrow> Inl e
           | Inr entries \<Rightarrow> Inr (entry # entries)))"

text \<open>
  \<^verbatim>\<open>export_to_bibtex\<close>: the text written to the file, or \<^verbatim>\<open>None\<close> when there are no
  results and no file is written.
\<close>

definition export_to_bibtex :: "(json \<Rightarrow> string) \<Rightarrow> searcher \<Rightarrow> error + string option" where
  "export_to_bibtex repr self =
     (if results self = [] then Inr None
      else
        (case bibtex_entries repr 0 (results self) of
           Inl e \<Rightarrow> Inl e
         | Inr entries \<Rightarrow> Inr (Some (py_join [CHR 0x0A, CHR 0x0A] entries))))"

section \<open>Properties of the substring test and the keyword lists\<close>


lemma starts_with_iff: "starts_with s p \<longleftrightarrow> (\<exists>b. s = p @ b)"
  by (induction s p rule: starts_with.induct) auto

lemma py_in_iff: "py_in k s \<longleftrightarrow> (\<exists>a b. s = a @ k @ b)"
proof (induction s)
  case Nil
  then show ?case by auto
next
  case (Cons c cs)
  show ?case
  proof
    assume "py_in k (c # cs)"
    then consider "starts_with (c # cs) k" | "py_in k cs" by (auto split: if_splits)
    then show "\<exists>a b. c # cs = a @ k @ b"
    proof cases
      case 1
      then obtain b where "c # cs = k @ b" by (auto simp: starts_with_iff)
      then have "c # cs = [] @ k @ b" by simp
      then show ?thesis by blast
    next
      case 2
      then obtain a b where "cs = a @ k @ b" using Cons.IH by blast
      then have "c # cs = (c # a) @ k @ b" by simp
      then show ?thesis by blast
    qed
  next
    assume "\<exists>a b. c # cs = a @ k @ b"
    then obtain a b where ab: "c # cs = a @ k @ b" by blast
    show "py_in k (c # cs)"
    proof (cases a)
      case Nil
      with ab have "starts_with (c # cs) k" by (auto simp: starts_with_iff)
      then show ?thesis by simp
    next
      case (Cons a0 as)
      with ab have "cs = as @ k @ b" by simp
      then have "py_in k cs" using Cons.IH by blast
      then show ?thesis by simp
    qed
  qed
qed

lemma any_in_lowered: "map lower L = L \<Longrightarrow> any_in L text = list_ex (\<lambda>k. py_in k text) L"
proof -
  assume h: "map lower L = L"
  have "any_in L text = list_ex (\<lambda>k. py_in k text) (map lower L)"
    by (simp add: any_in_def list_ex_iff)
  with h show ?thesis by simp
qed

lemma first_exclusion_find_lower:
  "first_exclusion L text = find (\<lambda>k. py_in (lower k) text) L"
  by (induction L) auto

lemma first_exclusion_lowered:
  assumes "map lower L = L"
  shows "first_exclusion L text = find (\<lambda>k. py_in k text) L"
proof -
  have "\<forall>k \<in> set L. lower k = k" using assms by (simp add: map_idI map_eq_conv[of lower L id, simplified])
  then have "find (\<lambda>k. py_in (lower k) text) L = find (\<lambda>k. py_in k text) L"
    by (intro find_cong) auto
  then show ?thesis by (simp add: first_exclusion_find_lower)
qed

lemma lower_EXCLUSION_STRICT: "map lower EXCLUSION_STRICT = EXCLUSION_STRICT"
  by (simp add: EXCLUSION_STRICT_def lower_def lower_char_def)


lemma first_exclusion_None:
  "first_exclusion L text = None \<longleftrightarrow> \<not> any_in L text"
  by (induction L) (auto simp: any_in_def)



lemma lower_NDT_METHODS_CORE: "map lower NDT_METHODS_CORE = NDT_METHODS_CORE"
  by (simp add: NDT_METHODS_CORE_def lower_def lower_char_def)

lemma lower_STRUCTURAL_MATERIALS: "map lower STRUCTURAL_MATERIALS = STRUCTURAL_MATERIALS"
  by (simp add: STRUCTURAL_MATERIALS_def lower_def lower_char_def)

lemma lower_TASK_GEOMETRY: "map lower TASK_GEOMETRY = TASK_GEOMETRY"
  by (simp add: TASK_GEOMETRY_def lower_def lower_char_def)

lemma lower_TASK_STRENGTH: "map lower TASK_STRENGTH = TASK_STRENGTH"
  by (simp add: TASK_STRENGTH_def lower_def lower_char_def)

lemma lower_TASK_DETERIORATION: "map lower TASK_DETERIORATION = TASK_DETERIORATION"
  by (simp add: TASK_DETERIORATION_def lower_def lower_char_def)

lemma lower_TASK_DEFECTS: "map lower TASK_DEFECTS = TASK_DEFECTS"
  by (simp add: TASK_DEFECTS_def lower_def lower_char_def)

lemma lower_TASK_MOISTURE: "map lower TASK_MOISTURE = TASK_MOISTURE"
  by (simp add: TASK_MOISTURE_def lower_def lower_char_def)

lemma lower_CIRCULAR_STRICT: "map lower CIRCULAR_STRICT = CIRCULAR_STRICT"
  by (simp add: CIRCULAR_STRICT_def lower_def lower_char_def)

lemma any_in_append: "any_in (xs @ ys) s = (any_in xs s \<or> any_in ys s)"
  by (simp add: any_in_def list_ex_iff) blast

lemma any_in_ALL_ASSESSMENT_TASKS:
  "any_in ALL_ASSESSMENT_TASKS s =
     (any_in TASK_GEOMETRY s \<or> any_in TASK_STRENGTH s \<or> any_in TASK_DETERIORATION s \<or>
      any_in TASK_DEFECTS s \<or> any_in TASK_MOISTURE s)"
  by (simp add: ALL_ASSESSMENT_TASKS_def any_in_append)

lemmas any_in_keywords =
  any_in_lowered[OF lower_EXCLUSION_STRICT] any_in_lowered[OF lower_NDT_METHODS_CORE]
  any_in_lowered[OF lower_STRUCTURAL_MATERIALS] any_in_lowered[OF lower_TASK_GEOMETRY]
  any_in_lowered[OF lower_TASK_STRENGTH] any_in_lowered[OF lower_TASK_DETERIORATION]
  any_in_lowered[OF lower_TASK_DEFECTS] any_in_lowered[OF lower_TASK_MOISTURE]
  any_in_lowered[OF lower_CIRCULAR_STRICT] any_in_ALL_ASSESSMENT_TASKS

lemmas keyword_lists =
  EXCLUSION_STRICT_def NDT_METHODS_CORE_def STRUCTURAL_MATERIALS_def TASK_GEOMETRY_def
  TASK_STRENGTH_def TASK_DETERIORATION_def TASK_DEFECTS_def TASK_MOISTURE_def CIRCULAR_STRICT_def

text \<open>The classifier after the text has been built, with the keyword lists already lower case.\<close>

lemma is_relevant_on_text:
  assumes "paper_text paper = Inr s"
  shows "is_relevant stats paper =
     (if any_in EXCLUSION_STRICT s then
        Inr ((False, ''Excluded: '' @ the (find (\<lambda>k. py_in k s) EXCLUSION_STRICT)),
             stats(the (find (\<lambda>k. py_in k s) EXCLUSION_STRICT) \<mapsto>
               stats_count stats (the (find (\<lambda>k. py_in k s) EXCLUSION_STRICT)) + 1))
      else if \<not> any_in NDT_METHODS_CORE s then Inr ((False, ''No core NDT method''), stats)
      else if \<not> any_in STRUCTURAL_MATERIALS s then Inr ((False, ''No structural material''), stats)
      else if \<not> (any_in ALL_ASSESSMENT_TASKS s \<or> any_in CIRCULAR_STRICT s) then
        Inr ((False, ''No assessment task or circular context''), stats)
      else Inr ((True, ''Tasks: '' @
             (if tasks_found s \<noteq> [] then py_join '', '' (tasks_found s) else ''circular'')), stats))"
proof (cases "first_exclusion EXCLUSION_STRICT s")
  case None
  then have "\<not> any_in EXCLUSION_STRICT s" by (simp add: first_exclusion_None)
  with None assms show ?thesis by (simp add: is_relevant_def)
next
  case (Some e)
  then have "any_in EXCLUSION_STRICT s"
    using first_exclusion_None[of EXCLUSION_STRICT s] by simp
  moreover have "find (\<lambda>k. py_in k s) EXCLUSION_STRICT = Some e"
    using Some by (simp add: first_exclusion_lowered[OF lower_EXCLUSION_STRICT])
  ultimately show ?thesis using Some assms by (simp add: is_relevant_def)
qed

lemma paper_text_missing:
  assumes "map_of paper ''title'' \<in> {None, Some JNull}"
    and "map_of paper ''abstract'' \<in> {None, Some JNull}"
  shows "paper_text paper = Inr '' ''"
  using assms by (auto simp: paper_text_def dict_get_def py_or_def lower_def)

lemma paper_text_strings:
  assumes "map_of paper ''title'' = Some (JStr t)" and "map_of paper ''abstract'' = Some (JStr a)"
  shows "paper_text paper = Inr (lower (t @ '' '' @ a))"
proof -
  have "lower_char CHR '' '' = CHR '' ''" by (simp add: lower_char_def)
  then show ?thesis
    using assms by (simp add: paper_text_def dict_get_def py_or_def lower_def)
qed

section \<open>The classifier\<close>

text \<open>
  The text \<^verbatim>\<open>cancer\<close> has no NDT-method keyword, yet it is rejected as
  \<^verbatim>\<open>Excluded: cancer\<close>: the exclusion loop runs before the NDT test.
\<close>

theorem no_ndt_method_counterexample:
  "paper_text [(''title'', JStr ''cancer'')] = Inr ''cancer '' \<and>
   \<not> any_in NDT_METHODS_CORE ''cancer '' \<and>
   is_relevant Map.empty [(''title'', JStr ''cancer'')] \<noteq> Inr ((False, ''No core NDT method''), Map.empty)"
proof -
  have t: "paper_text [(''title'', JStr ''cancer'')] = Inr ''cancer ''"
    by (simp add: paper_text_def dict_get_def py_or_def lower_def lower_char_def)
  have n: "\<not> any_in NDT_METHODS_CORE ''cancer ''"
    unfolding any_in_keywords by code_simp
  have e: "any_in EXCLUSION_STRICT ''cancer ''"
    unfolding any_in_keywords by code_simp
  show ?thesis using t n e by (simp add: is_relevant_on_text[OF t])
qed

text \<open>
  C3, amended. A text with no exclusion keyword and no NDT-method keyword is rejected with
  the reason \<^verbatim>\<open>No core NDT method\<close>, whatever material and task keywords it has,
  and the counters are left as they were.
\<close>

theorem no_ndt_method:
  assumes "paper_text paper = Inr s"
    and "\<not> any_in EXCLUSION_STRICT s"
    and "\<not> any_in NDT_METHODS_CORE s"
  shows "is_relevant stats paper = Inr ((False, ''No core NDT method''), stats)"
  using assms by (simp add: is_relevant_on_text)

theorem no_ndt_method_witness:
  "any_in STRUCTURAL_MATERIALS ''rc beam cover depth '' \<and>
   any_in ALL_ASSESSMENT_TASKS ''rc beam cover depth '' \<and>
   is_relevant Map.empty [(''title'', JStr ''rc beam cover depth'')] =
     Inr ((False, ''No core NDT method''), Map.empty)"
proof -
  have t: "paper_text [(''title'', JStr ''rc beam cover depth'')] = Inr ''rc beam cover depth ''"
    by (simp add: paper_text_def dict_get_def py_or_def lower_def lower_char_def)
  have e: "\<not> any_in EXCLUSION_STRICT ''rc beam cover depth ''"
    unfolding any_in_keywords by code_simp
  have n: "\<not> any_in NDT_METHODS_CORE ''rc beam cover depth ''"
    unfolding any_in_keywords by code_simp
  have m: "any_in STRUCTURAL_MATERIALS ''rc beam cover depth ''"
    unfolding any_in_keywords by code_simp
  have g: "any_in TASK_GEOMETRY ''rc beam cover depth ''"
    unfolding any_in_keywords by code_simp
  show ?thesis using no_ndt_method[OF t e n, of Map.empty] m g
    by (simp add: any_in_ALL_ASSESSMENT_TASKS)
qed

text \<open>
  C10. A paper dictionary whose \<^verbatim>\<open>title\<close> and \<^verbatim>\<open>abstract\<close> entries are both
  absent or \<^verbatim>\<open>None\<close> raises nothing in \<^verbatim>\<open>is_relevant\<close>: its text is a single
  space and the result is \<^verbatim>\<open>(False, "No core NDT method")\<close>.
\<close>

theorem missing_title_and_abstract:
  assumes "map_of paper ''title'' \<in> {None, Some JNull}"
    and "map_of paper ''abstract'' \<in> {None, Some JNull}"
  shows "paper_text paper = Inr '' '' \<and>
         is_relevant stats paper = Inr ((False, ''No core NDT method''), stats)"
proof -
  have t: "paper_text paper = Inr '' ''" using assms by (rule paper_text_missing)
  have e: "\<not> any_in EXCLUSION_STRICT '' ''"
    unfolding any_in_keywords by code_simp
  have n: "\<not> any_in NDT_METHODS_CORE '' ''"
    unfolding any_in_keywords by code_simp
  show ?thesis using t e n by (simp add: is_relevant_on_text[OF t])
qed

theorem missing_title_and_abstract_witness:
  "paper_text [(''abstract'', JNull), (''year'', JNum 2020)] = Inr '' '' \<and>
   is_relevant Map.empty [(''abstract'', JNull), (''year'', JNum 2020)] =
     Inr ((False, ''No core NDT method''), Map.empty)"
  using missing_title_and_abstract[of "[(''abstract'', JNull), (''year'', JNum 2020)]" Map.empty]
  by simp

lemma task_names_in_reason:
  fixes s :: string
  defines "r \<equiv> ''Tasks: '' @
     (if tasks_found s \<noteq> [] then py_join '', '' (tasks_found s) else ''circular'')"
  shows "py_in ''geometry'' r \<longleftrightarrow> any_in TASK_GEOMETRY s"
    and "py_in ''strength'' r \<longleftrightarrow> any_in TASK_STRENGTH s"
    and "py_in ''deterioration'' r \<longleftrightarrow> any_in TASK_DETERIORATION s"
    and "py_in ''defects'' r \<longleftrightarrow> any_in TASK_DEFECTS s"
    and "py_in ''moisture'' r \<longleftrightarrow> any_in TASK_MOISTURE s"
    and "r = ''Tasks: geometry, strength'' \<longleftrightarrow>
           any_in TASK_GEOMETRY s \<and> any_in TASK_STRENGTH s \<and> \<not> any_in TASK_DETERIORATION s \<and>
           \<not> any_in TASK_DEFECTS s \<and> \<not> any_in TASK_MOISTURE s"
    and "r = ''Tasks: circular'' \<longleftrightarrow>
           \<not> any_in TASK_GEOMETRY s \<and> \<not> any_in TASK_STRENGTH s \<and> \<not> any_in TASK_DETERIORATION s \<and>
           \<not> any_in TASK_DEFECTS s \<and> \<not> any_in TASK_MOISTURE s"
  unfolding r_def tasks_found_def
  by (cases "any_in TASK_GEOMETRY s"; cases "any_in TASK_STRENGTH s";
      cases "any_in TASK_DETERIORATION s"; cases "any_in TASK_DEFECTS s";
      cases "any_in TASK_MOISTURE s"; simp)+

lemma is_relevant_accepted:
  assumes "is_relevant stats paper = Inr ((True, reason), stats')"
  shows "\<exists>s. paper_text paper = Inr s \<and> \<not> any_in EXCLUSION_STRICT s \<and>
           any_in NDT_METHODS_CORE s \<and> any_in STRUCTURAL_MATERIALS s \<and>
           (any_in ALL_ASSESSMENT_TASKS s \<or> any_in CIRCULAR_STRICT s) \<and> stats' = stats \<and>
           reason = ''Tasks: '' @
             (if tasks_found s \<noteq> [] then py_join '', '' (tasks_found s) else ''circular'')"
proof (cases "paper_text paper")
  case (Inl e)
  with assms show ?thesis by (simp add: is_relevant_def)
next
  case (Inr s)
  from assms show ?thesis
    unfolding is_relevant_on_text[OF Inr] using Inr
    by (simp split: if_splits)
qed

text \<open>
  C2. The reason of an accepted paper is \<^verbatim>\<open>Tasks: \<close> followed by the names of the task
  categories whose keyword set matches the text, in the fixed order and joined by a comma
  and a space, or by \<^verbatim>\<open>circular\<close> when no set matches. A task name occurs in the reason
  exactly when a keyword of its set occurs in the text; the reason is
  \<^verbatim>\<open>Tasks: geometry, strength\<close> exactly when the geometry and strength sets match and the
  three others do not; and it is \<^verbatim>\<open>Tasks: circular\<close> exactly when no task set matches,
  in which case a circular-economy keyword occurs in the text.
\<close>

theorem accepted_reason_names_tasks:
  assumes "is_relevant stats paper = Inr ((True, reason), stats')"
  shows "\<exists>s. paper_text paper = Inr s \<and>
      reason = ''Tasks: '' @
        (if tasks_found s \<noteq> [] then py_join '', '' (tasks_found s) else ''circular'') \<and>
      (py_in ''geometry'' reason \<longleftrightarrow> any_in TASK_GEOMETRY s) \<and>
      (py_in ''strength'' reason \<longleftrightarrow> any_in TASK_STRENGTH s) \<and>
      (py_in ''deterioration'' reason \<longleftrightarrow> any_in TASK_DETERIORATION s) \<and>
      (py_in ''defects'' reason \<longleftrightarrow> any_in TASK_DEFECTS s) \<and>
      (py_in ''moisture'' reason \<longleftrightarrow> any_in TASK_MOISTURE s) \<and>
      (reason = ''Tasks: geometry, strength'' \<longleftrightarrow>
         any_in TASK_GEOMETRY s \<and> any_in TASK_STRENGTH s \<and> \<not> any_in TASK_DETERIORATION s \<and>
         \<not> any_in TASK_DEFECTS s \<and> \<not> any_in TASK_MOISTURE s) \<and>
      (reason = ''Tasks: circular'' \<longleftrightarrow>
         \<not> any_in TASK_GEOMETRY s \<and> \<not> any_in TASK_STRENGTH s \<and> \<not> any_in TASK_DETERIORATION s \<and>
         \<not> any_in TASK_DEFECTS s \<and> \<not> any_in TASK_MOISTURE s) \<and>
      (reason = ''Tasks: circular'' \<longrightarrow> any_in CIRCULAR_STRICT s)"
proof -
  from is_relevant_accepted[OF assms] obtain s where
    t: "paper_text paper = Inr s" and
    g: "any_in ALL_ASSESSMENT_TASKS s \<or> any_in CIRCULAR_STRICT s" and
    r: "reason = ''Tasks: '' @
          (if tasks_found s \<noteq> [] then py_join '', '' (tasks_found s) else ''circular'')"
    by blast
  note n = task_names_in_reason[of s, folded r]
  have "reason = ''Tasks: circular'' \<longrightarrow> any_in CIRCULAR_STRICT s"
    using g n(7) by (auto simp: any_in_ALL_ASSESSMENT_TASKS)
  with t r n show ?thesis by blast
qed

lemma accepted_example:
  "is_relevant Map.empty [(''title'', JStr ''gpr rc beam''),
       (''abstract'', JStr ''cover depth and tensile strength'')] =
     Inr ((True, ''Tasks: geometry, strength''), Map.empty)"
proof -
  let ?s = "''gpr rc beam cover depth and tensile strength''"
  have t: "paper_text [(''title'', JStr ''gpr rc beam''),
       (''abstract'', JStr ''cover depth and tensile strength'')] = Inr ?s"
    by (simp add: paper_text_def dict_get_def py_or_def lower_def lower_char_def)
  have e: "\<not> any_in EXCLUSION_STRICT ?s"
    unfolding any_in_keywords by code_simp
  have n: "any_in NDT_METHODS_CORE ?s"
    unfolding any_in_keywords by code_simp
  have m: "any_in STRUCTURAL_MATERIALS ?s"
    unfolding any_in_keywords by code_simp
  have g: "any_in TASK_GEOMETRY ?s"
    unfolding any_in_keywords by code_simp
  have st: "any_in TASK_STRENGTH ?s"
    unfolding any_in_keywords by code_simp
  have d: "\<not> any_in TASK_DETERIORATION ?s"
    unfolding any_in_keywords by code_simp
  have f: "\<not> any_in TASK_DEFECTS ?s"
    unfolding any_in_keywords by code_simp
  have mo: "\<not> any_in TASK_MOISTURE ?s"
    unfolding any_in_keywords by code_simp
  show ?thesis
    unfolding is_relevant_on_text[OF t]
    using e n m g st d f mo by (simp add: any_in_ALL_ASSESSMENT_TASKS tasks_found_def)
qed

theorem accepted_reason_names_tasks_witness:
  "\<exists>s. paper_text [(''title'', JStr ''gpr rc beam''),
            (''abstract'', JStr ''cover depth and tensile strength'')] = Inr s \<and>
      ''Tasks: geometry, strength'' = ''Tasks: '' @
        (if tasks_found s \<noteq> [] then py_join '', '' (tasks_found s) else ''circular'') \<and>
      any_in TASK_GEOMETRY s \<and> any_in TASK_STRENGTH s \<and> \<not> any_in TASK_DETERIORATION s \<and>
      \<not> any_in TASK_DEFECTS s \<and> \<not> any_in TASK_MOISTURE s"
  using accepted_reason_names_tasks[OF accepted_example] by blast

lemma lower_scenario:
  "lower ''Ultrasonic pulse velocity testing of reinforced concrete for corrosion assessment'' =
     ''ultrasonic pulse velocity testing of reinforced concrete for corrosion assessment''"
  by code_simp

text \<open>
  C6. A paper whose title and abstract, joined by a space, read
  \<^verbatim>\<open>Ultrasonic pulse velocity testing of reinforced concrete for corrosion assessment\<close>
  is accepted, with the reason \<^verbatim>\<open>Tasks: deterioration\<close>, which contains
  \<^verbatim>\<open>deterioration\<close>.
\<close>

theorem ultrasonic_corrosion_scenario:
  assumes "map_of paper ''title'' = Some (JStr t)"
    and "map_of paper ''abstract'' = Some (JStr a)"
    and "t @ '' '' @ a =
      ''Ultrasonic pulse velocity testing of reinforced concrete for corrosion assessment''"
  shows "\<exists>reason. is_relevant stats paper = Inr ((True, reason), stats) \<and>
           py_in ''deterioration'' reason \<and> reason = ''Tasks: deterioration''"
proof -
  let ?s = "''ultrasonic pulse velocity testing of reinforced concrete for corrosion assessment''"
  have t: "paper_text paper = Inr ?s"
    using paper_text_strings[OF assms(1,2)] assms(3) lower_scenario by simp
  have e: "\<not> any_in EXCLUSION_STRICT ?s"
    unfolding any_in_keywords by code_simp
  have n: "any_in NDT_METHODS_CORE ?s"
    unfolding any_in_keywords by code_simp
  have m: "any_in STRUCTURAL_MATERIALS ?s"
    unfolding any_in_keywords by code_simp
  have g: "\<not> any_in TASK_GEOMETRY ?s"
    unfolding any_in_keywords by code_simp
  have st: "\<not> any_in TASK_STRENGTH ?s"
    unfolding any_in_keywords by code_simp
  have d: "any_in TASK_DETERIORATION ?s"
    unfolding any_in_keywords by code_simp
  have f: "\<not> any_in TASK_DEFECTS ?s"
    unfolding any_in_keywords by code_simp
  have mo: "\<not> any_in TASK_MOISTURE ?s"
    unfolding any_in_keywords by code_simp
  have "is_relevant stats paper = Inr ((True, ''Tasks: deterioration''), stats)"
    unfolding is_relevant_on_text[OF t]
    using e n m g st d f mo by (simp add: any_in_ALL_ASSESSMENT_TASKS tasks_found_def)
  then show ?thesis by simp
qed

theorem ultrasonic_corrosion_scenario_witness:
  "\<exists>reason. is_relevant Map.empty
       [(''title'', JStr ''Ultrasonic pulse velocity testing''),
        (''abstract'', JStr ''of reinforced concrete for corrosion assessment'')] =
         Inr ((True, reason), Map.empty) \<and>
       py_in ''deterioration'' reason \<and> reason = ''Tasks: deterioration''"
  using ultrasonic_corrosion_scenario[of
      "[(''title'', JStr ''Ultrasonic pulse velocity testing''),
        (''abstract'', JStr ''of reinforced concrete for corrosion assessment'')]"
      "''Ultrasonic pulse velocity testing''"
      "''of reinforced concrete for corrosion assessment''" Map.empty]
  by simp

section \<open>The parser: abstract reconstruction\<close>

lemma as_ints_JNum: "as_ints (map JNum ps) = Inr ps"
  by (induction ps) auto

lemma positions_JArr: "ps \<noteq> [] \<Longrightarrow> positions (JArr (map JNum ps)) = Inr ps"
  by (simp add: positions_def as_ints_JNum)

lemma index_lists_wellformed:
  "\<forall>wp \<in> set ix. snd wp \<noteq> [] \<Longrightarrow>
   index_lists (map (\<lambda>wp. (fst wp, JArr (map JNum (snd wp)))) ix) = Inr ix"
  by (induction ix) (auto simp: positions_JArr)

lemma fold_max_ge: "(a::int) \<le> fold max xs a \<and> (\<forall>x \<in> set xs. x \<le> fold max xs a)"
proof (induction xs arbitrary: a)
  case Nil
  show ?case by simp
next
  case (Cons y ys)
  have "max y a \<le> fold max ys (max y a)" and "\<forall>x \<in> set ys. x \<le> fold max ys (max y a)"
    using Cons.IH[of "max y a"] by auto
  then show ?case by auto
qed

lemma py_max_ge: "x \<in> set xs \<Longrightarrow> x \<le> py_max xs"
  using fold_max_ge[of "hd xs" "tl xs"] by (cases xs) (auto simp: py_max_def)

lemma place_word_in_range:
  assumes "\<forall>p \<in> set ps. 0 \<le> p \<and> p < int (length ws)"
  shows "\<exists>ws'. place_word w ps ws = Inr ws' \<and> length ws' = length ws \<and>
           (\<forall>q < length ws. ws' ! q = (if int q \<in> set ps then w else ws ! q))"
  using assms
proof (induction ps arbitrary: ws)
  case Nil
  then show ?case by simp
next
  case (Cons p ps)
  let ?ws1 = "ws[nat p := w]"
  have p: "0 \<le> p" "p < int (length ws)" using Cons.prems by auto
  then have a: "list_assign ws p w = Inr ?ws1" by (simp add: list_assign_def)
  have "\<forall>p \<in> set ps. 0 \<le> p \<and> p < int (length ?ws1)" using Cons.prems by simp
  from Cons.IH[OF this] obtain ws' where
    r: "place_word w ps ?ws1 = Inr ws'" and l: "length ws' = length ?ws1" and
    n: "\<forall>q < length ?ws1. ws' ! q = (if int q \<in> set ps then w else ?ws1 ! q)"
    by blast
  have "\<forall>q < length ws. ws' ! q = (if int q \<in> set (p # ps) then w else ws ! q)"
  proof (intro allI impI)
    fix q assume q: "q < length ws"
    show "ws' ! q = (if int q \<in> set (p # ps) then w else ws ! q)"
    proof (cases "int q = p")
      case True
      then have "nat p = q" by simp
      then have "?ws1 ! q = w" using q by simp
      with n q True show ?thesis by simp
    next
      case False
      then have "nat p \<noteq> q" using p by auto
      then have "?ws1 ! q = ws ! q" by simp
      with n q False show ?thesis by simp
    qed
  qed
  with a r l show ?case by simp
qed

lemma place_words_in_range:
  assumes "\<forall>wp \<in> set ix. \<forall>p \<in> set (snd wp). 0 \<le> p \<and> p < int (length ws)"
    and "\<forall>wp \<in> set ix. \<forall>wp' \<in> set ix. fst wp \<noteq> fst wp' \<longrightarrow> set (snd wp) \<inter> set (snd wp') = {}"
  shows "\<exists>ws'. place_words ix ws = Inr ws' \<and> length ws' = length ws \<and>
           (\<forall>q < length ws. (\<forall>wp \<in> set ix. int q \<notin> set (snd wp)) \<longrightarrow> ws' ! q = ws ! q) \<and>
           (\<forall>wp \<in> set ix. \<forall>p \<in> set (snd wp). ws' ! nat p = fst wp)"
  using assms
proof (induction ix arbitrary: ws)
  case Nil
  then show ?case by simp
next
  case (Cons wp0 ix)
  obtain w0 ps0 where wp0: "wp0 = (w0, ps0)" by (cases wp0)
  have r0: "\<forall>p \<in> set ps0. 0 \<le> p \<and> p < int (length ws)" using Cons.prems(1) wp0 by auto
  from place_word_in_range[OF r0, of w0] obtain ws1 where
    s1: "place_word w0 ps0 ws = Inr ws1" and l1: "length ws1 = length ws" and
    n1: "\<forall>q < length ws. ws1 ! q = (if int q \<in> set ps0 then w0 else ws ! q)"
    by blast
  have "\<forall>wp \<in> set ix. \<forall>p \<in> set (snd wp). 0 \<le> p \<and> p < int (length ws1)"
    using Cons.prems(1) l1 by simp
  moreover have "\<forall>wp \<in> set ix. \<forall>wp' \<in> set ix.
      fst wp \<noteq> fst wp' \<longrightarrow> set (snd wp) \<inter> set (snd wp') = {}"
    using Cons.prems(2) by simp
  ultimately obtain ws' where
    s2: "place_words ix ws1 = Inr ws'" and l2: "length ws' = length ws1" and
    u2: "\<forall>q < length ws1. (\<forall>wp \<in> set ix. int q \<notin> set (snd wp)) \<longrightarrow> ws' ! q = ws1 ! q" and
    p2: "\<forall>wp \<in> set ix. \<forall>p \<in> set (snd wp). ws' ! nat p = fst wp"
    using Cons.IH[of ws1] by blast
  have run: "place_words (wp0 # ix) ws = Inr ws'" using s1 s2 wp0 by simp
  have unl: "\<forall>q < length ws. (\<forall>wp \<in> set (wp0 # ix). int q \<notin> set (snd wp)) \<longrightarrow> ws' ! q = ws ! q"
    using u2 n1 l1 wp0 by simp
  have "\<forall>p \<in> set ps0. ws' ! nat p = w0"
  proof
    fix p assume p: "p \<in> set ps0"
    then have q: "nat p < length ws" "int (nat p) = p" using r0 by auto
    show "ws' ! nat p = w0"
    proof (cases "\<exists>wp \<in> set ix. p \<in> set (snd wp)")
      case True
      then obtain wp where wp: "wp \<in> set ix" "p \<in> set (snd wp)" by blast
      have "fst wp = w0"
      proof (rule ccontr)
        assume "fst wp \<noteq> w0"
        then have "set (snd wp) \<inter> set (snd wp0) = {}"
          using Cons.prems(2) wp(1) wp0 by (metis fst_conv list.set_intros(1) list.set_intros(2))
        with wp(2) p wp0 show False by auto
      qed
      with p2 wp show ?thesis by auto
    next
      case False
      then have "ws' ! nat p = ws1 ! nat p" using u2 q l1 by simp
      also have "\<dots> = w0" using n1 q p by simp
      finally show ?thesis .
    qed
  qed
  then have "\<forall>wp \<in> set (wp0 # ix). \<forall>p \<in> set (snd wp). ws' ! nat p = fst wp"
    using p2 wp0 by simp
  with run l2 l1 unl show ?case by simp
qed

text \<open>
  C5. For an inverted index whose words have non-empty lists of non-negative positions,
  no position listed under two different words, the rebuilt abstract is the list of
  words joined by single spaces, one slot for each position up to the largest one, where
  every word stands at each of its listed positions and every unlisted slot is the empty
  string. For the index \<^verbatim>\<open>{"ultrasonic": [0,3], "testing": [1]}\<close> it is
  \<^verbatim>\<open>ultrasonic testing  ultrasonic\<close>, with two spaces around the empty slot 2.
\<close>

theorem abstract_reconstruction:
  "(ix \<noteq> [] \<and> (\<forall>wp \<in> set ix. snd wp \<noteq> [] \<and> (\<forall>p \<in> set (snd wp). 0 \<le> p)) \<and>
    (\<forall>wp \<in> set ix. \<forall>wp' \<in> set ix. fst wp \<noteq> fst wp' \<longrightarrow> set (snd wp) \<inter> set (snd wp') = {})
    \<longrightarrow>
    (\<exists>ws. rebuild_abstract (JObj (map (\<lambda>wp. (fst wp, JArr (map JNum (snd wp)))) ix)) =
             Inr (py_join '' '' ws) \<and>
          int (length ws) = py_max (map (\<lambda>wp. py_max (snd wp)) ix) + 1 \<and>
          (\<forall>wp \<in> set ix. \<forall>p \<in> set (snd wp). nat p < length ws \<and> ws ! nat p = fst wp) \<and>
          (\<forall>q < length ws. (\<forall>wp \<in> set ix. int q \<notin> set (snd wp)) \<longrightarrow> ws ! q = []))) \<and>
   rebuild_abstract
       (JObj [(''ultrasonic'', JArr [JNum 0, JNum 3]), (''testing'', JArr [JNum 1])]) =
     Inr ''ultrasonic testing  ultrasonic''"
proof (intro conjI impI)
  assume h: "ix \<noteq> [] \<and> (\<forall>wp \<in> set ix. snd wp \<noteq> [] \<and> (\<forall>p \<in> set (snd wp). 0 \<le> p)) \<and>
    (\<forall>wp \<in> set ix. \<forall>wp' \<in> set ix. fst wp \<noteq> fst wp' \<longrightarrow> set (snd wp) \<inter> set (snd wp') = {})"
  let ?m = "py_max (map (\<lambda>wp. py_max (snd wp)) ix)"
  let ?ws0 = "replicate (nat (?m + 1)) ([]::string)"
  have top: "\<forall>wp \<in> set ix. \<forall>p \<in> set (snd wp). p \<le> ?m"
  proof (intro ballI)
    fix wp p assume wp: "wp \<in> set ix" and p: "p \<in> set (snd wp)"
    have "p \<le> py_max (snd wp)" using p by (rule py_max_ge)
    also have "\<dots> \<le> ?m" using wp by (intro py_max_ge) auto
    finally show "p \<le> ?m" .
  qed
  have ne: "ix \<noteq> []" and ps_ne: "\<forall>wp \<in> set ix. snd wp \<noteq> []"
    and nonneg: "\<forall>wp \<in> set ix. \<forall>p \<in> set (snd wp). 0 \<le> p"
    and disj: "\<forall>wp \<in> set ix. \<forall>wp' \<in> set ix.
        fst wp \<noteq> fst wp' \<longrightarrow> set (snd wp) \<inter> set (snd wp') = {}"
    using h by blast+
  obtain wp1 where wp1: "wp1 \<in> set ix" using ne by (cases ix) auto
  then have "snd wp1 \<noteq> []" using ps_ne by blast
  then obtain p1 where p1: "p1 \<in> set (snd wp1)" by (cases "snd wp1") auto
  have "0 \<le> p1" using nonneg wp1 p1 by blast
  moreover have "p1 \<le> ?m" using top wp1 p1 by blast
  ultimately have m0: "0 \<le> ?m" by simp
  then have len0: "int (length ?ws0) = ?m + 1" by simp
  have rng: "\<forall>wp \<in> set ix. \<forall>p \<in> set (snd wp). 0 \<le> p \<and> p < int (length ?ws0)"
  proof (intro ballI)
    fix wp p assume a: "wp \<in> set ix" "p \<in> set (snd wp)"
    then have "0 \<le> p" "p \<le> ?m" using nonneg top by blast+
    then show "0 \<le> p \<and> p < int (length ?ws0)" using len0 by linarith
  qed
  from place_words_in_range[OF rng disj] obtain ws where
    run: "place_words ix ?ws0 = Inr ws" and len: "length ws = length ?ws0" and
    unl: "\<forall>q < length ?ws0. (\<forall>wp \<in> set ix. int q \<notin> set (snd wp)) \<longrightarrow> ws ! q = ?ws0 ! q" and
    put: "\<forall>wp \<in> set ix. \<forall>p \<in> set (snd wp). ws ! nat p = fst wp"
    by blast
  have il: "index_lists (map (\<lambda>wp. (fst wp, JArr (map JNum (snd wp)))) ix) = Inr ix"
    using ps_ne by (rule index_lists_wellformed)
  have "rebuild_abstract (JObj (map (\<lambda>wp. (fst wp, JArr (map JNum (snd wp)))) ix)) =
          Inr (py_join '' '' ws)"
    using ne il run by (simp add: rebuild_abstract_def Let_def)
  moreover have "int (length ws) = ?m + 1" using len len0 by simp
  moreover have "\<forall>wp \<in> set ix. \<forall>p \<in> set (snd wp). nat p < length ws \<and> ws ! nat p = fst wp"
  proof (intro ballI)
    fix wp p assume a: "wp \<in> set ix" "p \<in> set (snd wp)"
    then have "0 \<le> p \<and> p < int (length ?ws0)" using rng by blast
    then have "nat p < length ws" using len by linarith
    moreover have "ws ! nat p = fst wp" using put a by blast
    ultimately show "nat p < length ws \<and> ws ! nat p = fst wp" by simp
  qed
  moreover have "\<forall>q < length ws. (\<forall>wp \<in> set ix. int q \<notin> set (snd wp)) \<longrightarrow> ws ! q = []"
  proof (intro allI impI)
    fix q assume q: "q < length ws" and n: "\<forall>wp \<in> set ix. int q \<notin> set (snd wp)"
    then have "ws ! q = ?ws0 ! q" using unl len by simp
    then show "ws ! q = []" using q len by simp
  qed
  ultimately show "\<exists>ws. rebuild_abstract (JObj (map (\<lambda>wp. (fst wp, JArr (map JNum (snd wp)))) ix)) =
             Inr (py_join '' '' ws) \<and>
          int (length ws) = ?m + 1 \<and>
          (\<forall>wp \<in> set ix. \<forall>p \<in> set (snd wp). nat p < length ws \<and> ws ! nat p = fst wp) \<and>
          (\<forall>q < length ws. (\<forall>wp \<in> set ix. int q \<notin> set (snd wp)) \<longrightarrow> ws ! q = [])"
    by blast
next
  show "rebuild_abstract
       (JObj [(''ultrasonic'', JArr [JNum 0, JNum 3]), (''testing'', JArr [JNum 1])]) =
     Inr ''ultrasonic testing  ultrasonic''"
    by code_simp
qed

theorem abstract_reconstruction_witness:
  "\<exists>ws. rebuild_abstract
          (JObj [(''ultrasonic'', JArr [JNum 0, JNum 3]), (''testing'', JArr [JNum 1])]) =
            Inr (py_join '' '' ws) \<and>
        ws ! 0 = ''ultrasonic'' \<and> ws ! 1 = ''testing'' \<and> ws ! 2 = [] \<and> ws ! 3 = ''ultrasonic'' \<and>
        length ws = 4"
proof -
  let ?ix = "[(''ultrasonic'', [0, 3]), (''testing'', [1::int])]"
  have pm: "py_max (map (\<lambda>wp. py_max (snd wp)) ?ix) = 3" by (simp add: py_max_def)
  have h: "?ix \<noteq> [] \<and> (\<forall>wp \<in> set ?ix. snd wp \<noteq> [] \<and> (\<forall>p \<in> set (snd wp). 0 \<le> p)) \<and>
    (\<forall>wp \<in> set ?ix. \<forall>wp' \<in> set ?ix. fst wp \<noteq> fst wp' \<longrightarrow> set (snd wp) \<inter> set (snd wp') = {})"
    by simp
  from abstract_reconstruction[of ?ix, THEN conjunct1, rule_format, OF h]
  obtain ws where
    r: "rebuild_abstract (JObj (map (\<lambda>wp. (fst wp, JArr (map JNum (snd wp)))) ?ix)) =
          Inr (py_join '' '' ws)" and
    l: "int (length ws) = py_max (map (\<lambda>wp. py_max (snd wp)) ?ix) + 1" and
    p: "\<forall>wp \<in> set ?ix. \<forall>p \<in> set (snd wp). nat p < length ws \<and> ws ! nat p = fst wp" and
    u: "\<forall>q < length ws. (\<forall>wp \<in> set ?ix. int q \<notin> set (snd wp)) \<longrightarrow> ws ! q = []"
    by blast
  have l4: "length ws = 4" using l pm by simp
  have "\<forall>wp \<in> set ?ix. int 2 \<notin> set (snd wp)" by simp
  moreover have "(2::nat) < length ws" using l4 by simp
  ultimately have "ws ! 2 = []" using u by blast
  then have e2: "ws ! 2 = []" .
  have "ws ! 0 = ''ultrasonic''" "ws ! 1 = ''testing''" "ws ! 3 = ''ultrasonic''"
    using p by (simp_all add: eval_nat_numeral)
  then show ?thesis using r l4 e2 by auto
qed

section \<open>The search driver: the accepted map\<close>

lemma parse_paper_None: "parse_paper_try p = Inl e \<Longrightarrow> parse_paper p = None"
  by (simp add: parse_paper_def)

lemma parse_paper_Some:
  assumes "parse_paper p = Some pd"
  shows "\<exists>d. p = JObj d \<and> pd \<noteq> [] \<and>
           map_of pd ''openalex_id'' = Some (dict_get d ''id'' (JStr [])) \<and>
           map_of pd ''title'' = Some (dict_get d ''title'' (JStr []))"
proof -
  from assms obtain d where d: "p = JObj d"
    by (cases p) (auto simp: parse_paper_def parse_paper_try_def)
  from assms have "parse_paper_try (JObj d) = Inr pd"
    unfolding d parse_paper_def by (cases "parse_paper_try (JObj d)") auto
  then have "pd \<noteq> [] \<and> map_of pd ''openalex_id'' = Some (dict_get d ''id'' (JStr [])) \<and>
           map_of pd ''title'' = Some (dict_get d ''title'' (JStr []))"
    unfolding parse_paper_try_def by (auto split: sum.splits)
  with d show ?thesis by blast
qed
















lemma is_relevant_code [code]:
  "is_relevant stats paper =
     (case paper_text paper of
        Inl e \<Rightarrow> Inl e
      | Inr s \<Rightarrow>
          (case find (\<lambda>k. py_in k s) EXCLUSION_STRICT of
             Some exclude \<Rightarrow>
               Inr ((False, ''Excluded: '' @ exclude),
                    stats(exclude \<mapsto> stats_count stats exclude + 1))
           | None \<Rightarrow>
               if \<not> list_ex (\<lambda>k. py_in k s) NDT_METHODS_CORE then
                 Inr ((False, ''No core NDT method''), stats)
               else if \<not> list_ex (\<lambda>k. py_in k s) STRUCTURAL_MATERIALS then
                 Inr ((False, ''No structural material''), stats)
               else if \<not> ((list_ex (\<lambda>k. py_in k s) TASK_GEOMETRY \<or>
                              list_ex (\<lambda>k. py_in k s) TASK_STRENGTH \<or>
                              list_ex (\<lambda>k. py_in k s) TASK_DETERIORATION \<or>
                              list_ex (\<lambda>k. py_in k s) TASK_DEFECTS \<or>
                              list_ex (\<lambda>k. py_in k s) TASK_MOISTURE) \<or>
                             list_ex (\<lambda>k. py_in k s) CIRCULAR_STRICT) then
                 Inr ((False, ''No assessment task or circular context''), stats)
               else
                 Inr ((True, ''Tasks: '' @
                        (if tasks_found s \<noteq> [] then py_join '', '' (tasks_found s)
                         else ''circular'')),
                      stats)))"
  unfolding is_relevant_def first_exclusion_lowered[OF lower_EXCLUSION_STRICT]
    any_in_lowered[OF lower_NDT_METHODS_CORE] any_in_lowered[OF lower_STRUCTURAL_MATERIALS]
    any_in_lowered[OF lower_CIRCULAR_STRICT] any_in_ALL_ASSESSMENT_TASKS
    any_in_lowered[OF lower_TASK_GEOMETRY]
    any_in_lowered[OF lower_TASK_STRENGTH] any_in_lowered[OF lower_TASK_DETERIORATION]
    any_in_lowered[OF lower_TASK_DEFECTS] any_in_lowered[OF lower_TASK_MOISTURE]
  by (rule refl)

lemma tasks_found_code [code]:
  "tasks_found s =
     (if list_ex (\<lambda>k. py_in k s) TASK_GEOMETRY then [''geometry''] else []) @
     (if list_ex (\<lambda>k. py_in k s) TASK_STRENGTH then [''strength''] else []) @
     (if list_ex (\<lambda>k. py_in k s) TASK_DETERIORATION then [''deterioration''] else []) @
     (if list_ex (\<lambda>k. py_in k s) TASK_DEFECTS then [''defects''] else []) @
     (if list_ex (\<lambda>k. py_in k s) TASK_MOISTURE then [''moisture''] else [])"
  unfolding tasks_found_def any_in_lowered[OF lower_TASK_GEOMETRY]
    any_in_lowered[OF lower_TASK_STRENGTH] any_in_lowered[OF lower_TASK_DETERIORATION]
    any_in_lowered[OF lower_TASK_DEFECTS] any_in_lowered[OF lower_TASK_MOISTURE]
  by (rule refl)

section \<open>The search driver: deduplication\<close>



lemma is_relevant_verdict:
  assumes "is_relevant s pd = Inr ((b, r), s1)"
  shows "\<exists>s2. is_relevant s' pd = Inr ((b, r), s2)"
proof (cases "paper_text pd")
  case (Inl e)
  with assms show ?thesis by (simp add: is_relevant_def)
next
  case (Inr t)
  show ?thesis
  proof (cases "first_exclusion EXCLUSION_STRICT t")
    case (Some e)
    with assms Inr have "b = False" "r = ''Excluded: '' @ e"
      by (simp_all add: is_relevant_def)
    with Inr Some show ?thesis by (simp add: is_relevant_def)
  next
    case None
    have "\<And>u. is_relevant u pd = Inr (fst (projr (is_relevant u pd)), u)"
      using Inr None by (simp add: is_relevant_def)
    moreover have "\<And>u. fst (projr (is_relevant u pd)) = fst (projr (is_relevant s pd))"
      using Inr None by (simp add: is_relevant_def)
    ultimately have "is_relevant s' pd = Inr (fst (projr (is_relevant s pd)), s')"
      by metis
    with assms show ?thesis by simp
  qed
qed

lemma is_relevant_excluded_stats:
  assumes "is_relevant s pd = Inr ((b, ''Excluded: '' @ x), s1)"
  shows "s1 = s(x \<mapsto> stats_count s x + 1)"
proof (cases "paper_text pd")
  case (Inl e)
  with assms show ?thesis by (simp add: is_relevant_def)
next
  case (Inr t)
  show ?thesis
  proof (cases "first_exclusion EXCLUSION_STRICT t")
    case (Some e)
    with assms Inr show ?thesis by (auto simp: is_relevant_def)
  next
    case None
    have "snd (fst (projr (is_relevant s pd))) \<in>
            {''No core NDT method'', ''No structural material'',
             ''No assessment task or circular context'',
             ''Tasks: '' @ (if tasks_found t \<noteq> [] then py_join '', '' (tasks_found t)
                            else ''circular'')}"
      using Inr None by (simp add: is_relevant_def)
    with assms have False by auto
    then show ?thesis ..
  qed
qed

lemma process_paper_rejected:
  assumes "paper_key p = Inr k" and "map_of ar k = None" and "parse_paper p = Some pd"
    and "is_relevant (exclusion_stats st) pd = Inr ((False, reason), stats1)"
    and "py_slice60 (dict_get pd ''title'' (JStr [])) = Inr t"
  shows "process_paper (ar, st) p =
           Inr (ar, st\<lparr>excluded := excluded st @ [[(''title'', t), (''reason'', JStr reason)]],
                       exclusion_stats := stats1\<rparr>)"
proof -
  have "pd \<noteq> []" using parse_paper_Some[OF assms(3)] by blast
  then show ?thesis using assms by (simp add: process_paper_def)
qed

section \<open>The search driver: records that are not accepted\<close>

text \<open>
  C7. When the body of \<^verbatim>\<open>_parse_paper\<close> raises, \<^verbatim>\<open>_parse_paper\<close> returns \<^verbatim>\<open>None\<close>;
  and a record that the driver has looked up by its \<^verbatim>\<open>id\<close> and that parses to
  \<^verbatim>\<open>None\<close> leaves the accepted map, the exclusion log and the counters of the
  classifier exactly as they were.
\<close>

theorem parse_failure_skipped:
  "(parse_paper_try p = Inl e \<longrightarrow> parse_paper p = None) \<and>
   (paper_key p = Inr k \<and> parse_paper p = None \<longrightarrow>
      process_paper (ar, st) p = Inr (ar, st))"
  by (auto simp: parse_paper_def process_paper_def split: sum.splits)

theorem parse_failure_skipped_witness:
  "parse_paper_try (JObj [(''id'', JStr ''W1''), (''authorships'', JNull)]) = Inl TypeError \<and>
   parse_paper (JObj [(''id'', JStr ''W1''), (''authorships'', JNull)]) = None \<and>
   process_paper ([], init_searcher None) (JObj [(''id'', JStr ''W1''), (''authorships'', JNull)]) =
     Inr ([], init_searcher None)"
proof -
  let ?p = "JObj [(''id'', JStr ''W1''), (''authorships'', JNull)]"
  have t: "parse_paper_try ?p = Inl TypeError"
    by (simp add: parse_paper_try_def dict_get_def)
  have k: "paper_key ?p = Inr (KStr ''W1'')"
    by (simp add: paper_key_def dict_get_def)
  note th = parse_failure_skipped[of ?p TypeError "KStr ''W1''" "[]" "init_searcher None"]
  from th t have n: "parse_paper ?p = None" by blast
  from th k n have "process_paper ([], init_searcher None) ?p = Inr ([], init_searcher None)"
    by blast
  with t n show ?thesis by blast
qed

text \<open>
  C9. A record that is parsed and rejected under one query term leaves the accepted
  map, the only thing the driver consults, as it was. When the same record comes again
  it is parsed and classified again: the exclusion log gets the same entry a second time,
  \<^verbatim>\<open>records_identified\<close> and \<^verbatim>\<open>excluded_count\<close> grow by two, and when the reason is
  \<^verbatim>\<open>Excluded: x\<close> the counter of \<^verbatim>\<open>x\<close> grows by two.
\<close>

theorem rejected_not_remembered:
  assumes "paper_key p = Inr k" and "map_of ar k = None" and "parse_paper p = Some pd"
    and "is_relevant (exclusion_stats st) pd = Inr ((False, reason), stats1)"
    and "py_slice60 (dict_get pd ''title'' (JStr [])) = Inr t"
  shows "\<exists>st1 st2.
      process_paper (ar, st) p = Inr (ar, st1) \<and>
      process_paper (ar, st1) p = Inr (ar, st2) \<and>
      excluded st2 = excluded st @
        [[(''title'', t), (''reason'', JStr reason)], [(''title'', t), (''reason'', JStr reason)]] \<and>
      results st2 = results st \<and>
      records_identified st2 = records_identified st + 2 \<and>
      excluded_count st2 = excluded_count st + 2 \<and>
      (\<forall>x. reason = ''Excluded: '' @ x \<longrightarrow>
         exclusion_stats st2 x = Some (stats_count (exclusion_stats st) x + 2))"
proof -
  let ?e = "[(''title'', t), (''reason'', JStr reason)]"
  let ?st1 = "st\<lparr>excluded := excluded st @ [?e], exclusion_stats := stats1\<rparr>"
  have p1: "process_paper (ar, st) p = Inr (ar, ?st1)"
    using assms by (rule process_paper_rejected)
  from is_relevant_verdict[OF assms(4), of stats1] obtain stats2 where
    r2: "is_relevant stats1 pd = Inr ((False, reason), stats2)" by blast
  let ?st2 = "?st1\<lparr>excluded := excluded ?st1 @ [?e], exclusion_stats := stats2\<rparr>"
  have "is_relevant (exclusion_stats ?st1) pd = Inr ((False, reason), stats2)"
    using r2 by simp
  from process_paper_rejected[OF assms(1,2,3) this assms(5)]
  have p2: "process_paper (ar, ?st1) p = Inr (ar, ?st2)" .
  have c: "\<forall>x. reason = ''Excluded: '' @ x \<longrightarrow>
         exclusion_stats ?st2 x = Some (stats_count (exclusion_stats st) x + 2)"
  proof (intro allI impI)
    fix x assume x: "reason = ''Excluded: '' @ x"
    have "stats1 = (exclusion_stats st)(x \<mapsto> stats_count (exclusion_stats st) x + 1)"
      using assms(4) unfolding x by (rule is_relevant_excluded_stats)
    moreover have "stats2 = stats1(x \<mapsto> stats_count stats1 x + 1)"
      using r2 unfolding x by (rule is_relevant_excluded_stats)
    ultimately show "exclusion_stats ?st2 x = Some (stats_count (exclusion_stats st) x + 2)"
      by (simp add: stats_count_def)
  qed
  have "excluded ?st2 = excluded st @ [?e, ?e]" by simp
  moreover have "results ?st2 = results st" by simp
  moreover have "records_identified ?st2 = records_identified st + 2"
    by (simp add: records_identified_def)
  moreover have "excluded_count ?st2 = excluded_count st + 2"
    by (simp add: excluded_count_def)
  ultimately show ?thesis using p1 p2 c by blast
qed

theorem rejected_not_remembered_witness:
  "(\<exists>st1 st2.
      process_paper ([], init_searcher None)
        (JObj [(''id'', JStr ''W2''), (''title'', JStr ''Aircraft'')]) = Inr ([], st1) \<and>
      process_paper ([], st1)
        (JObj [(''id'', JStr ''W2''), (''title'', JStr ''Aircraft'')]) = Inr ([], st2) \<and>
      excluded st2 =
        [[(''title'', JStr ''Aircraft''), (''reason'', JStr ''Excluded: aircraft'')],
         [(''title'', JStr ''Aircraft''), (''reason'', JStr ''Excluded: aircraft'')]] \<and>
      records_identified st2 = 2 \<and> excluded_count st2 = 2 \<and>
      exclusion_stats st2 ''aircraft'' = Some 2) \<and>
   map_sum id (\<lambda>s. (results s, length (excluded s), exclusion_stats s ''aircraft'',
                    records_identified s, excluded_count s))
     (search
        (\<lambda>n ps. if n < 2 then Response (JObj [(''results'', JArr
                     [JObj [(''id'', JStr ''W2''), (''title'', JStr ''Aircraft'')]])])
                 else RequestException)
        (init_searcher None) 2014 2024 1) =
     Inr ([], 2, Some 2, 2, 2)"
proof -
  let ?p = "JObj [(''id'', JStr ''W2''), (''title'', JStr ''Aircraft'')]"
  let ?pd = "[(''title'', JStr ''Aircraft''), (''authors'', JStr []), (''year'', JNull),
              (''doi'', JStr []), (''journal'', JStr []), (''abstract'', JStr []),
              (''cited_by_count'', JNum 0), (''type'', JStr []), (''open_access'', JBool False),
              (''url'', JStr ''W2''), (''openalex_id'', JStr ''W2'')]"
  have k: "paper_key ?p = Inr (KStr ''W2'')" by (simp add: paper_key_def dict_get_def)
  have m: "map_of ([] :: accepted) (KStr ''W2'') = None" by simp
  have pp: "parse_paper ?p = Some ?pd" by code_simp
  have "map_sum id fst (is_relevant Map.empty ?pd) = Inr (False, ''Excluded: aircraft'')"
    by code_simp
  then obtain stats1 where
    r: "is_relevant (exclusion_stats (init_searcher None)) ?pd =
          Inr ((False, ''Excluded: aircraft''), stats1)"
    by (cases "is_relevant Map.empty ?pd") (auto simp: init_searcher_def)
  have t: "py_slice60 (dict_get ?pd ''title'' (JStr [])) = Inr (JStr ''Aircraft'')"
    by (simp add: dict_get_def)
  from rejected_not_remembered[OF k m pp r t] obtain st1 st2 where
    a: "process_paper ([], init_searcher None) ?p = Inr ([], st1)"
       "process_paper ([], st1) ?p = Inr ([], st2)" and
    b: "excluded st2 = excluded (init_searcher None) @
        [[(''title'', JStr ''Aircraft''), (''reason'', JStr ''Excluded: aircraft'')],
         [(''title'', JStr ''Aircraft''), (''reason'', JStr ''Excluded: aircraft'')]]"
       "results st2 = results (init_searcher None)"
       "records_identified st2 = records_identified (init_searcher None) + 2"
       "excluded_count st2 = excluded_count (init_searcher None) + 2" and
    c: "\<forall>x. ''Excluded: aircraft'' = ''Excluded: '' @ x \<longrightarrow>
         exclusion_stats st2 x = Some (stats_count (exclusion_stats (init_searcher None)) x + 2)"
    by blast
  have "exclusion_stats st2 ''aircraft'' = Some 2"
    using c[rule_format, of "''aircraft''"] by (simp add: stats_count_def init_searcher_def)
  moreover have "excluded st2 =
        [[(''title'', JStr ''Aircraft''), (''reason'', JStr ''Excluded: aircraft'')],
         [(''title'', JStr ''Aircraft''), (''reason'', JStr ''Excluded: aircraft'')]]"
    using b(1) by (simp add: init_searcher_def)
  moreover have "records_identified st2 = 2" "excluded_count st2 = 2"
    using b(3,4) by (simp_all add: init_searcher_def records_identified_def excluded_count_def)
  moreover have "map_sum id (\<lambda>s. (results s, length (excluded s), exclusion_stats s ''aircraft'',
                    records_identified s, excluded_count s))
     (search
        (\<lambda>n ps. if n < 2 then Response (JObj [(''results'', JArr
                     [JObj [(''id'', JStr ''W2''), (''title'', JStr ''Aircraft'')]])])
                 else RequestException)
        (init_searcher None) 2014 2024 1) =
     Inr ([], 2, Some 2, 2, 2)"
    by code_simp
  ultimately show ?thesis using a by blast
qed

section \<open>The BibTeX export\<close>









text \<open>
  Two inputs on which the export raises instead of writing an entry. A work with a null
  title is accepted through its abstract, since \<^verbatim>\<open>is_relevant\<close> reads a missing title
  as the empty string, but \<^verbatim>\<open>export_to_bibtex\<close> calls \<^verbatim>\<open>replace\<close> on it. An author
  string whose first author is blank is not empty, and has no last token.
\<close>

lemma export_raises_on_null_title:
  "(case search
           (\<lambda>n ps. if n = 0 then Response (JObj [(''results'', JArr
               [JObj [(''id'', JStr ''W1''), (''title'', JNull),
                      (''abstract_inverted_index'',
                         JObj [(''gpr'', JArr [JNum 0]), (''rc'', JArr [JNum 1]),
                               (''beam'', JArr [JNum 2]), (''cover'', JArr [JNum 3]),
                               (''depth'', JArr [JNum 4])])]])])
                    else RequestException)
           (init_searcher None) 2014 2024 1 of
      Inl e \<Rightarrow> None
    | Inr s \<Rightarrow> Some (map (\<lambda>pd. (map_of pd ''title'', map_of pd ''assessment_tasks'')) (results s),
                      export_to_bibtex (\<lambda>v. []) s)) =
   Some ([(Some JNull, Some (JStr ''Tasks: geometry''))], Inl AttributeError)"
  by code_simp

text \<open>
  Letters and spaces beyond ASCII: the surname of \<^verbatim>\<open>Jan M\<close>U+00FC\<^verbatim>\<open>ller\<close> keeps its
  letter U+00FC in the key, and a no-break space separates the tokens of an author.
\<close>

lemma bibtex_key_latin1:
  "cite_key_of repr (last (py_split (first_field CHR '';'' (''Jan M'' @ [CHR 0xFC] @ ''ller''))))
     (JNum 2020) 0 = ''M'' @ [CHR 0xFC] @ ''ller2020_0'' \<and>
   py_split (first_field CHR '';'' (''Jean'' @ [CHR 0xA0] @ ''Dupont; A B'')) =
     [''Jean'', ''Dupont'']"
  by code_simp

lemma export_raises_on_blank_author:
  "bibtex_entry repr 0
      [(''title'', JStr ''T''), (''authors'', JStr '' ''), (''year'', JNum 2020),
       (''journal'', JStr ''J''), (''doi'', JStr ''d'')] = Inl IndexError"
  by (simp add: bibtex_entry_def dict_item_def first_author_of_def py_split_def first_field_def
      py_isspace_def)

end
